theory Spec2Isabelle
  imports Main "HOL-Library.AList"
begin

section \<open>The workflow engine of omnicore\_workflows.py\<close>

text \<open>
  A shallow embedding of the module \<^verbatim>\<open>src/omnicore/omnicore_workflows.py\<close>: the
  workflow model (\<^verbatim>\<open>WorkflowNode\<close> and its subclasses, \<^verbatim>\<open>WorkflowDefinition\<close>), the
  run of one workflow (\<^verbatim>\<open>WorkflowExecution\<close>) and the registry (\<^verbatim>\<open>WorkflowEngine\<close>).

  Conventions of the embedding.
  \<^item> A Python \<^verbatim>\<open>dict\<close> keeps its keys in insertion order, and the code iterates over
    dicts, so a dict is an association list: \<open>map_of\<close> reads a key, \<open>AList.update\<close>
    assigns one (in place when the key is there, at the end otherwise) and
    \<open>AList.delete\<close> is \<^verbatim>\<open>del\<close>.
  \<^item> Objects are mutated in place in the source; the model passes the state and returns
    the new one.
  \<^item> Every \<^verbatim>\<open>raise\<close> is a value: \<open>Inl\<close> of a \<open>py_error\<close>.
  \<^item> The times of the clock (\<^verbatim>\<open>started_at\<close>, \<^verbatim>\<open>duration\<close>, \<^verbatim>\<open>created_at\<close>, the
    \<^verbatim>\<open>completed_at\<close> of a node record) and the random \<^verbatim>\<open>task_id\<close> are left out:
    nothing in the module branches on them. The random \<^verbatim>\<open>execution_id\<close> is an
    argument.
  \<^item> The messages of the source are Portuguese sentences with accented letters; each
    is a constructor here, with the sentence next to it.
\<close>

subsection \<open>Enumerations\<close>

datatype NodeType =
  START | END | TASK | DECISION | PARALLEL_GATEWAY | EXCLUSIVE_GATEWAY
  | TIMER | HUMAN_TASK | SERVICE_TASK | SCRIPT_TASK | SUBPROCESS

datatype ExecutionStatus =
  PENDING | RUNNING | COMPLETED | FAILED | CANCELLED | WAITING | SKIPPED

datatype TaskPriority = LOW | NORMAL | HIGH | CRITICAL | URGENT

fun priority_value :: "TaskPriority \<Rightarrow> int" where
  "priority_value LOW = 1"
| "priority_value NORMAL = 3"
| "priority_value HIGH = 5"
| "priority_value CRITICAL = 7"
| "priority_value URGENT = 9"

subsection \<open>Python values\<close>

text \<open>
  What a call does. It returns a value, or it raises; the text is \<^verbatim>\<open>str(e)\<close>.
  \<open>Raises\<close> is an exception of the class \<^verbatim>\<open>Exception\<close>, which both
  \<^verbatim>\<open>except Exception\<close> and a bare \<^verbatim>\<open>except\<close> catch. \<open>Aborts\<close> is one outside that
  class (\<^verbatim>\<open>KeyboardInterrupt\<close>, \<^verbatim>\<open>SystemExit\<close>, \<^verbatim>\<open>asyncio.CancelledError\<close>),
  which only a bare \<^verbatim>\<open>except\<close> catches.
\<close>

datatype 'a outcome = Returns 'a | Raises string | Aborts string

text \<open>
  The values a workflow variable holds and \<^verbatim>\<open>eval\<close> returns (\<^verbatim>\<open>Any\<close> in the
  source): integers, strings, booleans, \<^verbatim>\<open>None\<close>, dicts with string keys (a service
  task stores one), and any other object, of which the model keeps the name of its class
  and what its truth test does.
\<close>

datatype pyval =
  PInt int | PStr string | PBool bool | PNone | PDict "(string \<times> pyval) list"
  | PObject string "bool outcome"

text \<open>
  The truth test \<^verbatim>\<open>if v:\<close>, that is \<^verbatim>\<open>bool(v)\<close>. It cannot raise on the values of
  the language; on another object it does what the object's \<^verbatim>\<open>__bool__\<close> does.
\<close>

fun truth :: "pyval \<Rightarrow> bool outcome" where
  "truth (PInt i) = Returns (i \<noteq> 0)"
| "truth (PStr s) = Returns (s \<noteq> [])"
| "truth (PBool b) = Returns b"
| "truth PNone = Returns False"
| "truth (PDict kvs) = Returns (kvs \<noteq> [])"
| "truth (PObject cls t) = t"

text \<open>\<^verbatim>\<open>type(value).__name__\<close>\<close>

fun type_name :: "pyval \<Rightarrow> string" where
  "type_name (PInt i) = ''int''"
| "type_name (PStr s) = ''str''"
| "type_name (PBool b) = ''bool''"
| "type_name PNone = ''NoneType''"
| "type_name (PDict kvs) = ''dict''"
| "type_name (PObject cls t) = cls"

text \<open>
  \<^verbatim>\<open>s.replace(old, new)\<close>: every occurrence of \<open>old\<close>, found from the left and without
  overlap, becomes \<open>new\<close>; with an empty \<open>old\<close>, \<open>new\<close> is put before every character
  and at the end.
\<close>

fun replace_scan :: "string \<Rightarrow> string \<Rightarrow> string \<Rightarrow> string" where
  "replace_scan old new [] = []"
| "replace_scan old new (c # cs) =
     (if take (length old) (c # cs) = old
      then new @ replace_scan old new (drop (length old - 1) cs)
      else c # replace_scan old new cs)"

definition str_replace :: "string \<Rightarrow> string \<Rightarrow> string \<Rightarrow> string" where
  "str_replace s old new =
     (if old = [] then new @ concat (map (\<lambda>c. c # new) s) else replace_scan old new s)"

subsection \<open>Data classes\<close>

record WorkflowVariable =
  var_name :: string
  var_value :: pyval
  var_type :: string
  var_required :: bool
  var_description :: string

text \<open>The constructor, with the defaults of the dataclass for the fields not given.\<close>

definition mk_variable :: "string \<Rightarrow> pyval \<Rightarrow> string \<Rightarrow> WorkflowVariable" where
  "mk_variable n v t =
     \<lparr>var_name = n, var_value = v, var_type = t, var_required = False, var_description = []\<rparr>"

text \<open>\<^verbatim>\<open>metadata\<close> and \<^verbatim>\<open>current_nodes\<close> are never read or written by the module.\<close>

record ExecutionContext =
  workflow_id :: string
  execution_id :: string
  user_id :: string
  company_id :: string
  variables :: "(string \<times> WorkflowVariable) list"

text \<open>
  \<^verbatim>\<open>eval\<close> and \<^verbatim>\<open>str\<close> are builtins of Python, not code of the module. The model takes
  them as an argument, so that what is proved of the module holds whatever they compute.
  \<^verbatim>\<open>eval\<close> is given the context, which its scope holds, and the text. It runs the text
  as code: it returns a value or raises, and it leaves a context, which need not be the
  one it was given (the text can assign to the variables). \<^verbatim>\<open>str\<close> returns a text or
  raises.
\<close>

record builtins =
  py_eval :: "ExecutionContext \<Rightarrow> string \<Rightarrow> pyval outcome \<times> ExecutionContext"
  py_str :: "pyval \<Rightarrow> string outcome"

text \<open>
  The task a human task node hands out (the dict \<^verbatim>\<open>task\<close>), without
  \<^verbatim>\<open>form_fields\<close> and \<^verbatim>\<open>due_date\<close>, which the module only copies.
\<close>

record Task =
  task_workflow_id :: string
  task_execution_id :: string
  task_node_id :: string
  task_name :: string
  task_assignee :: "string option"
  task_priority :: int

text \<open>
  The dict a node's \<^verbatim>\<open>execute\<close> returns. The engine reads \<^verbatim>\<open>status\<close>,
  \<^verbatim>\<open>next_nodes\<close>, \<^verbatim>\<open>error\<close> and \<^verbatim>\<open>task\<close>; a key that is absent is \<open>None\<close>.
  The keys that only carry a payload (\<^verbatim>\<open>result\<close>, \<^verbatim>\<open>duration\<close>,
  \<^verbatim>\<open>waiting_for\<close>) are left out.
\<close>

record NodeResult =
  res_status :: string
  res_next_nodes :: "string list option"
  res_error :: "string option"
  res_task :: "Task option"
  res_decision :: "string option"
  res_type :: "string option"

definition result_of :: "string \<Rightarrow> NodeResult" where
  "result_of st =
     \<lparr>res_status = st, res_next_nodes = None, res_error = None, res_task = None,
      res_decision = None, res_type = None\<rparr>"

record NodeExecution =
  ne_node_id :: string
  ne_execution_id :: string
  ne_status :: ExecutionStatus
  ne_error_message :: "string option"
  ne_output_data :: "NodeResult option"

subsection \<open>Nodes\<close>

text \<open>An entry of \<^verbatim>\<open>incoming\<close> or \<^verbatim>\<open>outgoing\<close>.\<close>

record connection =
  conn_node_id :: string
  conn_condition :: "string option"

text \<open>
  The class of a node. The module defines seven subclasses of the abstract
  \<^verbatim>\<open>WorkflowNode\<close>; \<open>CustomNode\<close> stands for any other subclass, which chooses its
  \<^verbatim>\<open>node_type\<close> and brings its own \<^verbatim>\<open>execute\<close>, a function of the context that
  returns a result dict or raises, and may write the context.
\<close>

datatype node_class =
  StartNode
  | EndNode
  | ServiceTaskNode (service_name: string) (operation: string)
      (input_mapping: "(string \<times> string) list") (output_mapping: "(string \<times> string) list")
  | DecisionNode
  | HumanTaskNode (assignee: "string option") (priority: TaskPriority)
  | TimerNode (duration: int)
  | ParallelGatewayNode (gateway_type: string)
  | CustomNode NodeType "ExecutionContext \<Rightarrow> NodeResult outcome \<times> ExecutionContext"

record WorkflowNode =
  node_id :: string
  node_name :: string
  node_class :: node_class
  incoming :: "connection list"
  outgoing :: "connection list"

text \<open>\<^verbatim>\<open>node_type\<close> is what the constructor of the class passes to \<^verbatim>\<open>super().__init__\<close>.\<close>

fun class_node_type :: "node_class \<Rightarrow> NodeType" where
  "class_node_type StartNode = START"
| "class_node_type EndNode = END"
| "class_node_type (ServiceTaskNode s opn im om) = SERVICE_TASK"
| "class_node_type DecisionNode = DECISION"
| "class_node_type (HumanTaskNode a p) = HUMAN_TASK"
| "class_node_type (TimerNode d) = TIMER"
| "class_node_type (ParallelGatewayNode g) = PARALLEL_GATEWAY"
| "class_node_type (CustomNode t f) = t"

definition node_type :: "WorkflowNode \<Rightarrow> NodeType" where
  "node_type n = class_node_type (node_class n)"

text \<open>\<^verbatim>\<open>WorkflowNode.__init__\<close>: a node starts without connections.\<close>

definition mk_node :: "string \<Rightarrow> string \<Rightarrow> node_class \<Rightarrow> WorkflowNode" where
  "mk_node i n c = \<lparr>node_id = i, node_name = n, node_class = c, incoming = [], outgoing = []\<rparr>"

definition add_incoming :: "WorkflowNode \<Rightarrow> string \<Rightarrow> string option \<Rightarrow> WorkflowNode" where
  "add_incoming n i c = n\<lparr>incoming := incoming n @ [\<lparr>conn_node_id = i, conn_condition = c\<rparr>]\<rparr>"

definition add_outgoing :: "WorkflowNode \<Rightarrow> string \<Rightarrow> string option \<Rightarrow> WorkflowNode" where
  "add_outgoing n i c = n\<lparr>outgoing := outgoing n @ [\<lparr>conn_node_id = i, conn_condition = c\<rparr>]\<rparr>"

subsection \<open>WorkflowDefinition\<close>

record WorkflowDefinition =
  def_workflow_id :: string
  def_name :: string
  def_version :: string
  def_nodes :: "(string \<times> WorkflowNode) list"
  def_variables :: "(string \<times> WorkflowVariable) list"

definition mk_definition :: "string \<Rightarrow> string \<Rightarrow> WorkflowDefinition" where
  "mk_definition i n =
     \<lparr>def_workflow_id = i, def_name = n, def_version = ''1.0'', def_nodes = [],
      def_variables = []\<rparr>"

definition add_node :: "WorkflowDefinition \<Rightarrow> WorkflowNode \<Rightarrow> WorkflowDefinition" where
  "add_node d n = d\<lparr>def_nodes := AList.update (node_id n) n (def_nodes d)\<rparr>"

text \<open>
  \<^verbatim>\<open>connect_nodes\<close>: both writes happen under the one test. The node under \<open>to_node\<close> is
  read after the first write, as the source reads \<^verbatim>\<open>self.nodes[to_node]\<close> then: when
  the two ids are the same, the one node gets both entries.
\<close>

definition connect_nodes ::
  "WorkflowDefinition \<Rightarrow> string \<Rightarrow> string \<Rightarrow> string option \<Rightarrow> WorkflowDefinition" where
  "connect_nodes d from_node to_node condition =
     (case (map_of (def_nodes d) from_node, map_of (def_nodes d) to_node) of
        (Some f, Some t) \<Rightarrow>
          (let nodes1 = AList.update from_node (add_outgoing f to_node condition) (def_nodes d)
           in case map_of nodes1 to_node of
                Some t1 \<Rightarrow>
                  d\<lparr>def_nodes := AList.update to_node (add_incoming t1 from_node condition) nodes1\<rparr>
              | None \<Rightarrow> d)
      | _ \<Rightarrow> d)"

text \<open>
  The diagnostics of \<^verbatim>\<open>validate\<close>:
  \<^item> \<open>Sem_inicio\<close>: "Workflow deve ter um no de inicio";
  \<^item> \<open>Mais_de_um_inicio\<close>: "Workflow deve ter apenas um no de inicio";
  \<^item> \<open>Sem_fim\<close>: "Workflow deve ter pelo menos um no de fim";
  \<^item> \<open>Sem_entrada name\<close>: "No name nao tem conexoes de entrada";
  \<^item> \<open>Sem_saida name\<close>: "No name nao tem conexoes de saida".
\<close>

datatype diagnostic =
  Sem_inicio | Mais_de_um_inicio | Sem_fim | Sem_entrada string | Sem_saida string

definition start_errors :: "WorkflowNode list \<Rightarrow> diagnostic list" where
  "start_errors start_nodes =
     (if start_nodes = [] then [Sem_inicio]
      else if length start_nodes > 1 then [Mais_de_um_inicio]
      else [])"

definition end_errors :: "WorkflowNode list \<Rightarrow> diagnostic list" where
  "end_errors end_nodes = (if end_nodes = [] then [Sem_fim] else [])"

text \<open>The body of the connectivity loop, for one node.\<close>

definition connectivity_errors :: "WorkflowNode \<Rightarrow> diagnostic list" where
  "connectivity_errors node =
     (if node_type node \<notin> set [START, END]
      then (if incoming node = [] then [Sem_entrada (node_name node)] else [])
         @ (if outgoing node = [] \<and> node_type node \<noteq> END then [Sem_saida (node_name node)] else [])
      else [])"

definition validate :: "WorkflowDefinition \<Rightarrow> diagnostic list" where
  "validate d =
     (let node_values = map snd (def_nodes d);
          start_nodes = filter (\<lambda>n. node_type n = START) node_values;
          end_nodes = filter (\<lambda>n. node_type n = END) node_values
      in start_errors start_nodes @ end_errors end_nodes
         @ concat (map connectivity_errors node_values))"

subsection \<open>What each node class does when executed\<close>

text \<open>\<^verbatim>\<open>[conn["node_id"] for conn in self.outgoing]\<close>\<close>

definition next_of :: "WorkflowNode \<Rightarrow> string list" where
  "next_of n = map conn_node_id (outgoing n)"

text \<open>\<^verbatim>\<open>conn.get("condition")\<close> as a test: the key holds a string that is not empty.\<close>

definition has_condition :: "connection \<Rightarrow> bool" where
  "has_condition c = (case conn_condition c of None \<Rightarrow> False | Some s \<Rightarrow> s \<noteq> [])"

text \<open>
  The loop of \<^verbatim>\<open>_evaluate_condition\<close>: in the order of the dict, every
  \<^verbatim>\<open>{name}\<close> is replaced by \<^verbatim>\<open>str\<close> of the variable's value. A \<^verbatim>\<open>str\<close> that
  raises ends the loop.
\<close>

fun substitute ::
  "builtins \<Rightarrow> (string \<times> WorkflowVariable) list \<Rightarrow> string \<Rightarrow> string outcome" where
  "substitute py [] condition_eval = Returns condition_eval"
| "substitute py (item # items) condition_eval =
     (case py_str py (var_value (snd item)) of
        Returns s \<Rightarrow> substitute py items (str_replace condition_eval (''{'' @ fst item @ ''}'') s)
      | Raises e \<Rightarrow> Raises e
      | Aborts e \<Rightarrow> Aborts e)"

text \<open>
  \<^verbatim>\<open>_evaluate_condition\<close>: the value of \<^verbatim>\<open>eval\<close> on the substituted text, and the
  context \<^verbatim>\<open>eval\<close> left. The bare \<^verbatim>\<open>except\<close> turns everything raised, by
  \<^verbatim>\<open>str\<close> or by \<^verbatim>\<open>eval\<close>, inside or outside \<^verbatim>\<open>Exception\<close>, into \<^verbatim>\<open>False\<close>.
\<close>

definition evaluate_condition ::
  "builtins \<Rightarrow> string \<Rightarrow> ExecutionContext \<Rightarrow> pyval \<times> ExecutionContext" where
  "evaluate_condition py condition context =
     (case substitute py (variables context) condition of
        Returns condition_eval \<Rightarrow>
          (case py_eval py context condition_eval of
             (Returns v, c) \<Rightarrow> (v, c)
           | (Raises e, c) \<Rightarrow> (PBool False, c)
           | (Aborts e, c) \<Rightarrow> (PBool False, c))
      | Raises e \<Rightarrow> (PBool False, context)
      | Aborts e \<Rightarrow> (PBool False, context))"

text \<open>
  The body of the first loop of \<^verbatim>\<open>DecisionNode.execute\<close> for one connection: what
  the two tests \<^verbatim>\<open>if condition:\<close> and \<^verbatim>\<open>if self._evaluate_condition(...):\<close> give
  together, and the context left. The second test takes the truth value of whatever
  \<^verbatim>\<open>eval\<close> returned, outside the \<^verbatim>\<open>except\<close> of \<^verbatim>\<open>_evaluate_condition\<close>, so it can
  raise.
\<close>

definition edge_test ::
  "builtins \<Rightarrow> ExecutionContext \<Rightarrow> connection \<Rightarrow> bool outcome \<times> ExecutionContext" where
  "edge_test py context c =
     (case conn_condition c of
        None \<Rightarrow> (Returns False, context)
      | Some condition \<Rightarrow>
          if condition = [] then (Returns False, context)
          else (case evaluate_condition py condition context of (v, c1) \<Rightarrow> (truth v, c1)))"

text \<open>
  The first loop of \<^verbatim>\<open>DecisionNode.execute\<close>: \<open>Returns (Some r)\<close> is its
  \<^verbatim>\<open>return\<close>, \<open>Returns None\<close> is the loop running to its end, and a truth test that
  raises leaves the loop. Every connection is tested on the context the tests before it
  left.
\<close>

fun decision_loop ::
  "builtins \<Rightarrow> ExecutionContext \<Rightarrow> connection list
     \<Rightarrow> NodeResult option outcome \<times> ExecutionContext" where
  "decision_loop py context [] = (Returns None, context)"
| "decision_loop py context (c # cs) =
     (case edge_test py context c of
        (Returns True, c1) \<Rightarrow>
          (Returns (Some ((result_of ''completed'')
                      \<lparr>res_decision := conn_condition c,
                       res_next_nodes := Some [conn_node_id c]\<rparr>)), c1)
      | (Returns False, c1) \<Rightarrow> decision_loop py c1 cs
      | (Raises e, c1) \<Rightarrow> (Raises e, c1)
      | (Aborts e, c1) \<Rightarrow> (Aborts e, c1))"

text \<open>
  \<^verbatim>\<open>DecisionNode.execute\<close>. Its \<^verbatim>\<open>except Exception\<close> turns an exception of the
  loop into a result with status \<^verbatim>\<open>failed\<close>; an exception outside \<^verbatim>\<open>Exception\<close>
  leaves the method.
\<close>

definition decision_execute ::
  "builtins \<Rightarrow> WorkflowNode \<Rightarrow> ExecutionContext \<Rightarrow> NodeResult outcome \<times> ExecutionContext" where
  "decision_execute py node context =
     (case decision_loop py context (outgoing node) of
        (Returns (Some r), c) \<Rightarrow> (Returns r, c)
      | (Returns None, c) \<Rightarrow>
          (let default_route = map conn_node_id (filter (\<lambda>c. \<not> has_condition c) (outgoing node))
           in (Returns ((result_of ''completed'')
                 \<lparr>res_decision := Some ''default'', res_next_nodes := Some default_route\<rparr>), c))
      | (Raises e, c) \<Rightarrow> (Returns ((result_of ''failed'')\<lparr>res_error := Some e\<rparr>), c)
      | (Aborts e, c) \<Rightarrow> (Aborts e, c))"

text \<open>\<^verbatim>\<open>ServiceTaskNode\<close>: the input dict, the simulated call and the output mapping.\<close>

definition service_input ::
  "(string \<times> string) list \<Rightarrow> (string \<times> WorkflowVariable) list \<Rightarrow> (string \<times> pyval) list" where
  "service_input im vars =
     fold (\<lambda>(name, mapping) input_data.
             case map_of vars mapping of
               Some v \<Rightarrow> AList.update name (var_value v) input_data
             | None \<Rightarrow> input_data) im []"

definition call_service :: "string \<Rightarrow> (string \<times> pyval) list \<Rightarrow> (string \<times> pyval) list" where
  "call_service sname input_data =
     [(''result'', PStr (''Service '' @ sname @ '' executed'')), (''data'', PDict input_data)]"

definition service_output ::
  "(string \<times> string) list \<Rightarrow> (string \<times> pyval) list \<Rightarrow> (string \<times> WorkflowVariable) list
     \<Rightarrow> (string \<times> WorkflowVariable) list" where
  "service_output om result vars =
     fold (\<lambda>(name, mapping) vs.
             case map_of result name of
               Some v \<Rightarrow> AList.update mapping (mk_variable mapping v ''object'') vs
             | None \<Rightarrow> vs) om vars"

definition human_task ::
  "WorkflowNode \<Rightarrow> string option \<Rightarrow> TaskPriority \<Rightarrow> ExecutionContext \<Rightarrow> Task" where
  "human_task node a p context =
     \<lparr>task_workflow_id = workflow_id context, task_execution_id = execution_id context,
      task_node_id = node_id node, task_name = node_name node,
      task_assignee = a, task_priority = priority_value p\<rparr>"

text \<open>
  \<^verbatim>\<open>node.execute(context)\<close>, by the class of the node: what the call does (returns a
  result dict or raises) and the context it leaves. The timer sleeps and then returns;
  time is not part of the model. A parallel gateway returns the same dict for a fork and
  for a join, but for the key \<^verbatim>\<open>type\<close>. Nothing inside the \<^verbatim>\<open>try\<close> of the service
  task raises, so its handler has no branch here.
\<close>

definition execute ::
  "builtins \<Rightarrow> WorkflowNode \<Rightarrow> ExecutionContext \<Rightarrow> NodeResult outcome \<times> ExecutionContext" where
  "execute py node context =
     (case node_class node of
        StartNode \<Rightarrow>
          (Returns ((result_of ''started'')\<lparr>res_next_nodes := Some (next_of node)\<rparr>), context)
      | EndNode \<Rightarrow> (Returns (result_of ''completed''), context)
      | ServiceTaskNode sname opn im om \<Rightarrow>
          (let input_data = service_input im (variables context);
               result = call_service sname input_data
           in (Returns ((result_of ''completed'')\<lparr>res_next_nodes := Some (next_of node)\<rparr>),
               context\<lparr>variables := service_output om result (variables context)\<rparr>))
      | DecisionNode \<Rightarrow> decision_execute py node context
      | HumanTaskNode a p \<Rightarrow>
          (Returns ((result_of ''waiting'')\<lparr>res_task := Some (human_task node a p context)\<rparr>), context)
      | TimerNode d \<Rightarrow>
          (Returns ((result_of ''completed'')\<lparr>res_next_nodes := Some (next_of node)\<rparr>), context)
      | ParallelGatewayNode g \<Rightarrow>
          (if g = ''fork''
           then (Returns ((result_of ''completed'')
                   \<lparr>res_next_nodes := Some (next_of node), res_type := Some ''fork''\<rparr>), context)
           else (Returns ((result_of ''completed'')
                   \<lparr>res_next_nodes := Some (next_of node), res_type := Some ''join''\<rparr>), context))
      | CustomNode t f \<Rightarrow> f context)"

text \<open>\<^verbatim>\<open>HumanTaskNode.complete_task\<close>: every field of the answers becomes a variable.\<close>

definition merge_task_data ::
  "(string \<times> pyval) list \<Rightarrow> (string \<times> WorkflowVariable) list \<Rightarrow> (string \<times> WorkflowVariable) list" where
  "merge_task_data task_data vars =
     fold (\<lambda>(field, v) vs. AList.update field (mk_variable field v (type_name v)) vs)
       task_data vars"

definition node_complete_task ::
  "WorkflowNode \<Rightarrow> (string \<times> pyval) list \<Rightarrow> ExecutionContext \<Rightarrow> NodeResult \<times> ExecutionContext" where
  "node_complete_task node task_data context =
     ((result_of ''completed'')\<lparr>res_next_nodes := Some (next_of node)\<rparr>,
      context\<lparr>variables := merge_task_data task_data (variables context)\<rparr>)"

subsection \<open>WorkflowExecution\<close>

text \<open>
  The state of one run. \<open>exec_log\<close> is the line \<^verbatim>\<open>_execute_node\<close> writes to the logger
  for every node it executes (the node's name and type), oldest first; \<open>completed_at\<close>
  says whether the field of that name has been set. \<^verbatim>\<open>current_tokens\<close> is created
  empty and never touched again.
\<close>

record WorkflowExecution =
  workflow_def :: WorkflowDefinition
  exec_context :: ExecutionContext
  node_executions :: "(string \<times> NodeExecution) list"
  current_tokens :: "string list"
  waiting_tasks :: "(string \<times> Task) list"
  completed_at :: bool
  status :: ExecutionStatus
  exec_log :: "(string \<times> NodeType) list"

definition new_execution :: "WorkflowDefinition \<Rightarrow> ExecutionContext \<Rightarrow> WorkflowExecution" where
  "new_execution d c =
     \<lparr>workflow_def = d, exec_context = c, node_executions = [], current_tokens = [],
      waiting_tasks = [], completed_at = False, status = PENDING, exec_log = []\<rparr>"

text \<open>
  The errors that leave the methods of the module. Those it raises itself are all
  \<^verbatim>\<open>ValueError\<close>:
  \<^item> \<open>Workflow_sem_inicio\<close>: "Workflow nao tem no de inicio";
  \<^item> \<open>Tarefa_nao_encontrada id\<close>: "Tarefa id nao encontrada ou ja completada";
  \<^item> \<open>No_nao_e_tarefa_humana id\<close>: "No id nao e uma tarefa humana";
  \<^item> \<open>Workflow_invalido errors\<close>: "Workflow invalido: " and the diagnostics, joined;
  \<^item> \<open>Workflow_nao_encontrado id\<close>: "Workflow id nao encontrado";
  \<^item> \<open>Execucao_nao_encontrada id\<close>: "Execucao id nao encontrada".

  \<open>KeyError\<close> is a dict lookup that failed, and \<open>BaseException\<close> an exception outside
  \<^verbatim>\<open>Exception\<close> that a node raised and no handler of the module caught.
\<close>

datatype value_error =
  Workflow_sem_inicio
  | Tarefa_nao_encontrada string
  | No_nao_e_tarefa_humana string
  | Workflow_invalido "diagnostic list"
  | Workflow_nao_encontrado string
  | Execucao_nao_encontrada string

datatype py_error = ValueError value_error | KeyError string | BaseException string

text \<open>
  \<^verbatim>\<open>_execute_node\<close>. The record is stored under the node's id before the node runs
  and completed afterwards. The handler is \<^verbatim>\<open>except Exception\<close>: an exception of
  \<^verbatim>\<open>execute\<close> inside that class becomes a failed result, and one outside it leaves the
  method (\<open>Inl\<close>), with the record as it was stored, RUNNING.
\<close>

definition set_record ::
  "WorkflowExecution \<Rightarrow> WorkflowNode \<Rightarrow> NodeExecution \<Rightarrow> WorkflowExecution" where
  "set_record x node e = x\<lparr>node_executions := AList.update (node_id node) e (node_executions x)\<rparr>"

definition execute_node ::
  "builtins \<Rightarrow> WorkflowExecution \<Rightarrow> WorkflowNode
     \<Rightarrow> (py_error + NodeResult) \<times> WorkflowExecution" where
  "execute_node py x node =
     (let execution =
            \<lparr>ne_node_id = node_id node, ne_execution_id = execution_id (exec_context x),
             ne_status = RUNNING, ne_error_message = None, ne_output_data = None\<rparr>;
          x1 = (set_record x node execution)
                 \<lparr>exec_log := exec_log x @ [(node_name node, node_type node)]\<rparr>
      in case execute py node (exec_context x1) of
           (Returns result, c) \<Rightarrow>
             (let x2 = x1\<lparr>exec_context := c\<rparr>;
                  done = execution\<lparr>ne_output_data := Some result\<rparr>
              in if res_status result = ''failed''
                 then (Inr result, set_record x2 node
                         (done\<lparr>ne_status := FAILED, ne_error_message := res_error result\<rparr>))
                 else if res_status result = ''waiting''
                 then (Inr result,
                       (case res_task result of
                          Some t \<Rightarrow>
                            (set_record x2 node (done\<lparr>ne_status := WAITING\<rparr>))
                              \<lparr>waiting_tasks := AList.update (node_id node) t (waiting_tasks x2)\<rparr>
                        | None \<Rightarrow> set_record x2 node (done\<lparr>ne_status := WAITING\<rparr>)))
                 else (Inr result, set_record x2 node (done\<lparr>ne_status := COMPLETED\<rparr>)))
         | (Raises e, c) \<Rightarrow>
             (Inr ((result_of ''failed'')\<lparr>res_error := Some e\<rparr>),
              set_record (x1\<lparr>exec_context := c\<rparr>) node
                (execution\<lparr>ne_status := FAILED, ne_error_message := Some e\<rparr>))
         | (Aborts e, c) \<Rightarrow> (Inl (BaseException e), x1\<lparr>exec_context := c\<rparr>))"

text \<open>
  A \<^verbatim>\<open>for\<close> loop whose body is a call. A call returns (\<open>Inr\<close>, with the state it
  leaves), or an exception leaves it (\<open>Inl\<close>, with the exception and the state left), or
  it does not return at all (\<open>None\<close>). The state is threaded through the calls; the
  loop ends with the first call that does not return.
\<close>

fun for_each ::
  "('s \<Rightarrow> 'a \<Rightarrow> ('e \<times> 's + 's) option) \<Rightarrow> 'a list \<Rightarrow> 's \<Rightarrow> ('e \<times> 's + 's) option" where
  "for_each body [] x = Some (Inr x)"
| "for_each body (i # is) x =
     (case body x i of
        None \<Rightarrow> None
      | Some (Inl ex) \<Rightarrow> Some (Inl ex)
      | Some (Inr x') \<Rightarrow> for_each body is x')"

text \<open>
  \<^verbatim>\<open>_continue_execution\<close> calls itself for every next node, and a workflow with a
  cycle makes it call itself without end. The first argument bounds the depth of the
  calls; \<open>None\<close> says that the bound was reached before the call returned.
\<close>

fun continue_execution ::
  "builtins \<Rightarrow> nat \<Rightarrow> WorkflowExecution \<Rightarrow> string
     \<Rightarrow> (py_error \<times> WorkflowExecution + WorkflowExecution) option" where
  "continue_execution py 0 x nid = None"
| "continue_execution py (Suc depth) x nid =
     (case map_of (def_nodes (workflow_def x)) nid of
        None \<Rightarrow> Some (Inr x)
      | Some node \<Rightarrow>
          if node_type node = END
          then (case execute_node py x node of
                  (Inl err, x1) \<Rightarrow> Some (Inl (err, x1))
                | (Inr result, x1) \<Rightarrow>
                    Some (Inr (x1\<lparr>status := COMPLETED, completed_at := True\<rparr>)))
          else (case execute_node py x node of
                  (Inl err, x1) \<Rightarrow> Some (Inl (err, x1))
                | (Inr result, x1) \<Rightarrow>
                    if res_status result = ''failed'' then Some (Inr (x1\<lparr>status := FAILED\<rparr>))
                    else if res_status result = ''waiting'' then Some (Inr x1)
                    else for_each (continue_execution py depth)
                           (case res_next_nodes result of None \<Rightarrow> [] | Some ns \<Rightarrow> ns) x1))"

text \<open>
  \<^verbatim>\<open>start\<close>. The outer \<open>None\<close> is a run that did not return within the depth; \<open>Inl\<close>
  is what left the method, with the state left. The dict it returns holds the execution
  id and the status, both fields of the state returned here. The result of the start
  node is read for its next nodes only.
\<close>

definition start ::
  "builtins \<Rightarrow> nat \<Rightarrow> WorkflowExecution
     \<Rightarrow> (py_error \<times> WorkflowExecution + WorkflowExecution) option" where
  "start py depth x =
     (let x0 = x\<lparr>status := RUNNING\<rparr>;
          start_nodes = filter (\<lambda>n. node_type n = START) (map snd (def_nodes (workflow_def x0)))
      in case start_nodes of
           [] \<Rightarrow> Some (Inl (ValueError Workflow_sem_inicio, x0))
         | start_node # _ \<Rightarrow>
             (case execute_node py x0 start_node of
                (Inl err, x1) \<Rightarrow> Some (Inl (err, x1))
              | (Inr result, x1) \<Rightarrow>
                  (case res_next_nodes result of
                     None \<Rightarrow> Some (Inr x1)
                   | Some ns \<Rightarrow> for_each (continue_execution py depth) ns x1)))"

text \<open>\<^verbatim>\<open>isinstance(node, HumanTaskNode)\<close>\<close>

fun is_human_task_node :: "node_class \<Rightarrow> bool" where
  "is_human_task_node (HumanTaskNode a p) = True"
| "is_human_task_node _ = False"

text \<open>\<^verbatim>\<open>complete_human_task\<close>\<close>

definition complete_human_task ::
  "builtins \<Rightarrow> nat \<Rightarrow> WorkflowExecution \<Rightarrow> string \<Rightarrow> (string \<times> pyval) list
     \<Rightarrow> (py_error \<times> WorkflowExecution + WorkflowExecution) option" where
  "complete_human_task py depth x nid task_data =
     (if map_of (waiting_tasks x) nid = None
      then Some (Inl (ValueError (Tarefa_nao_encontrada nid), x))
      else case map_of (def_nodes (workflow_def x)) nid of
        None \<Rightarrow> Some (Inl (KeyError nid, x))
      | Some node \<Rightarrow>
          if \<not> is_human_task_node (node_class node)
          then Some (Inl (ValueError (No_nao_e_tarefa_humana nid), x))
          else (case node_complete_task node task_data (exec_context x) of
            (result, c) \<Rightarrow>
              (case map_of (node_executions x) nid of
                 None \<Rightarrow> Some (Inl (KeyError nid, x\<lparr>exec_context := c\<rparr>))
               | Some execution \<Rightarrow>
                   (let x1 = x\<lparr>exec_context := c,
                              node_executions :=
                                AList.update nid
                                  (execution\<lparr>ne_status := COMPLETED, ne_output_data := Some result\<rparr>)
                                  (node_executions x),
                              waiting_tasks := AList.delete nid (waiting_tasks x)\<rparr>
                    in for_each (continue_execution py depth)
                         (case res_next_nodes result of None \<Rightarrow> [] | Some ns \<Rightarrow> ns) x1))))"

subsection \<open>WorkflowEngine\<close>

record WorkflowEngine =
  workflow_definitions :: "(string \<times> WorkflowDefinition) list"
  executions :: "(string \<times> WorkflowExecution) list"

definition new_engine :: WorkflowEngine where
  "new_engine = \<lparr>workflow_definitions = [], executions = []\<rparr>"

text \<open>
  \<^verbatim>\<open>register_workflow\<close>: the \<^verbatim>\<open>raise\<close> comes before the only assignment, so an
  engine that raised is the engine as it was.
\<close>

definition register_workflow :: "WorkflowEngine \<Rightarrow> WorkflowDefinition \<Rightarrow> py_error + WorkflowEngine" where
  "register_workflow e d =
     (let errors = validate d
      in if errors \<noteq> [] then Inl (ValueError (Workflow_invalido errors))
         else Inr (e\<lparr>workflow_definitions :=
                       AList.update (def_workflow_id d) d (workflow_definitions e)\<rparr>))"

text \<open>\<^verbatim>\<open>for name, value in variables.items(): context.variables[name] = ...\<close>\<close>

definition initial_variables :: "(string \<times> pyval) list \<Rightarrow> (string \<times> WorkflowVariable) list" where
  "initial_variables vars =
     fold (\<lambda>(name, v) vs. AList.update name (mk_variable name v (type_name v)) vs) vars []"

text \<open>
  \<^verbatim>\<open>start_workflow\<close>; \<open>eid\<close> is the fresh \<^verbatim>\<open>uuid4\<close>. It returns the engine with the
  run stored under \<open>eid\<close>, and \<open>eid\<close>. The source stores the new run before it
  starts it, so after a \<^verbatim>\<open>start\<close> that an exception left the engine holds the run;
  the error result here does not carry the engine.
\<close>

definition start_workflow ::
  "builtins \<Rightarrow> nat \<Rightarrow> WorkflowEngine \<Rightarrow> string \<Rightarrow> string \<Rightarrow> string \<Rightarrow> (string \<times> pyval) list
     \<Rightarrow> string \<Rightarrow> (py_error + WorkflowEngine \<times> string) option" where
  "start_workflow py depth e wid uid cid vars eid =
     (case map_of (workflow_definitions e) wid of
        None \<Rightarrow> Some (Inl (ValueError (Workflow_nao_encontrado wid)))
      | Some d \<Rightarrow>
          (let c = \<lparr>workflow_id = wid, execution_id = eid, user_id = uid, company_id = cid,
                    variables = initial_variables vars\<rparr>
           in case start py depth (new_execution d c) of
                None \<Rightarrow> None
              | Some (Inl (err, x)) \<Rightarrow> Some (Inl err)
              | Some (Inr x) \<Rightarrow>
                  Some (Inr (e\<lparr>executions := AList.update eid x (executions e)\<rparr>, eid))))"

text \<open>\<^verbatim>\<open>WorkflowEngine.complete_task\<close>: the run is changed in place, under its id.\<close>

definition complete_task ::
  "builtins \<Rightarrow> nat \<Rightarrow> WorkflowEngine \<Rightarrow> string \<Rightarrow> string \<Rightarrow> (string \<times> pyval) list
     \<Rightarrow> (py_error + WorkflowEngine) option" where
  "complete_task py depth e eid nid task_data =
     (case map_of (executions e) eid of
        None \<Rightarrow> Some (Inl (ValueError (Execucao_nao_encontrada eid)))
      | Some x \<Rightarrow>
          (case complete_human_task py depth x nid task_data of
             None \<Rightarrow> None
           | Some (Inl (err, x')) \<Rightarrow> Some (Inl err)
           | Some (Inr x') \<Rightarrow> Some (Inr (e\<lparr>executions := AList.update eid x' (executions e)\<rparr>))))"

subsection \<open>The builtins on the expressions of the scenarios\<close>

text \<open>
  An instance of the builtins, to run the engine on concrete workflows. \<open>python_str\<close> is
  \<^verbatim>\<open>str\<close> on integers, strings, booleans and \<^verbatim>\<open>None\<close>; a dict is printed as Python
  prints one whose keys and strings need no escape, and another object as the name of
  its class in angle brackets, which stands for what its \<^verbatim>\<open>__str__\<close> prints.
  \<open>python_eval\<close> is \<^verbatim>\<open>eval\<close> on two kinds of text:
  \<^item> \<^verbatim>\<open>a op b\<close> with two decimal integers and one of the six comparison operators,
    separated by blanks;
  \<^item> \<^verbatim>\<open>var.value\<close>: in the scope of \<^verbatim>\<open>_evaluate_condition\<close> the name \<^verbatim>\<open>var\<close> is
    the variable the substitution loop ended on, the last of the dict, and is unbound
    when the dict is empty.

  It answers \<open>Raises\<close> on every other text; that is what \<^verbatim>\<open>eval\<close> does where the text
  is no expression or names something unbound, as \<^verbatim>\<open>{score} < 700\<close> does, a set
  display around the name \<^verbatim>\<open>score\<close>. The instance is used at such texts only. It
  leaves the context as it is.
\<close>

fun digits :: "nat \<Rightarrow> string" where
  "digits n = (if n < 10 then [''0123456789'' ! n] else digits (n div 10) @ [''0123456789'' ! (n mod 10)])"

definition int_str :: "int \<Rightarrow> string" where
  "int_str i = (if i < 0 then CHR ''-'' # digits (nat (- i)) else digits (nat i))"

fun join_with :: "string \<Rightarrow> string list \<Rightarrow> string" where
  "join_with sep [] = []"
| "join_with sep [x] = x"
| "join_with sep (x # y # zs) = x @ sep @ join_with sep (y # zs)"

fun python_repr :: "pyval \<Rightarrow> string" where
  "python_repr (PInt i) = int_str i"
| "python_repr (PStr s) = [CHR 0x27] @ s @ [CHR 0x27]"
| "python_repr (PBool b) = (if b then ''True'' else ''False'')"
| "python_repr PNone = ''None''"
| "python_repr (PDict kvs) =
     ''{'' @ join_with '', ''
              (map (\<lambda>kv. [CHR 0x27] @ fst kv @ [CHR 0x27] @ '': '' @ python_repr (snd kv)) kvs)
       @ ''}''"
| "python_repr (PObject cls t) = ''<'' @ cls @ ''>''"

definition python_str :: "pyval \<Rightarrow> string outcome" where
  "python_str v = Returns (case v of PStr s \<Rightarrow> s | _ \<Rightarrow> python_repr v)"

text \<open>The words of a text, as \<^verbatim>\<open>split\<close> on blanks gives them.\<close>

fun words_from :: "string \<Rightarrow> string \<Rightarrow> string list" where
  "words_from w [] = (if w = [] then [] else [w])"
| "words_from w (c # cs) =
     (if c = CHR '' '' then (if w = [] then words_from [] cs else w # words_from [] cs)
      else words_from (w @ [c]) cs)"

definition digit_value :: "char \<Rightarrow> nat option" where
  "digit_value c = map_of (zip ''0123456789'' [0, 1, 2, 3, 4, 5, 6, 7, 8, 9]) c"

fun nat_literal :: "nat \<Rightarrow> string \<Rightarrow> nat option" where
  "nat_literal acc [] = Some acc"
| "nat_literal acc (c # cs) =
     (case digit_value c of None \<Rightarrow> None | Some d \<Rightarrow> nat_literal (10 * acc + d) cs)"

text \<open>A decimal literal; one that starts with \<^verbatim>\<open>0\<close> is a syntax error unless it is zero.\<close>

definition int_literal :: "string \<Rightarrow> int option" where
  "int_literal w =
     (case w of
        [] \<Rightarrow> None
      | c # cs \<Rightarrow>
          (case nat_literal 0 w of
             None \<Rightarrow> None
           | Some n \<Rightarrow> if c = CHR ''0'' \<and> n \<noteq> 0 then None else Some (int n)))"

definition comparison :: "string \<Rightarrow> (int \<Rightarrow> int \<Rightarrow> bool) option" where
  "comparison w =
     (if w = ''<'' then Some (\<lambda>a b. a < b)
      else if w = ''<='' then Some (\<lambda>a b. a \<le> b)
      else if w = ''>'' then Some (\<lambda>a b. a > b)
      else if w = ''>='' then Some (\<lambda>a b. a \<ge> b)
      else if w = ''=='' then Some (\<lambda>a b. a = b)
      else if w = ''!='' then Some (\<lambda>a b. a \<noteq> b)
      else None)"

definition python_eval :: "ExecutionContext \<Rightarrow> string \<Rightarrow> pyval outcome" where
  "python_eval context s =
     (if s = ''var.value''
      then (case variables context of
              [] \<Rightarrow> Raises ''name var is not defined''
            | item # items \<Rightarrow> Returns (var_value (snd (last (item # items)))))
      else case words_from [] s of
        [a, opr, b] \<Rightarrow>
          (case (int_literal a, comparison opr, int_literal b) of
             (Some i, Some cmp, Some j) \<Rightarrow> Returns (PBool (cmp i j))
           | _ \<Rightarrow> Raises ''invalid expression'')
      | _ \<Rightarrow> Raises ''invalid expression'')"

definition python :: builtins where
  "python = \<lparr>py_eval = (\<lambda>context s. (python_eval context s, context)), py_str = python_str\<rparr>"

subsection \<open>Workflows of the scenarios\<close>

text \<open>
  The workflows the statements below are run on, each built with \<^verbatim>\<open>add_node\<close> and
  \<^verbatim>\<open>connect_nodes\<close> as a caller of the module builds them.
\<close>

text \<open>A definition with a start node and an end node and no connection.\<close>

definition two_nodes :: WorkflowDefinition where
  "two_nodes =
     add_node (add_node (mk_definition ''w'' ''W'') (mk_node ''start'' ''Start'' StartNode))
       (mk_node ''end'' ''End'' EndNode)"

text \<open>A start node and a service task, and no end node.\<close>

definition no_end :: WorkflowDefinition where
  "no_end =
     (let d = mk_definition ''no_end'' ''No end'';
          d = add_node d (mk_node ''start'' ''Start'' StartNode);
          d = add_node d (mk_node ''process'' ''Processar'' (ServiceTaskNode ''svc'' ''run'' [] []));
          d = connect_nodes d ''start'' ''process'' None
      in d)"

text \<open>
  Scenario B: start, a decision on the score, a manual review when the score is under
  700 and the end otherwise.
\<close>

definition scenario_b :: WorkflowDefinition where
  "scenario_b =
     (let d = mk_definition ''credit'' ''Credit'';
          d = add_node d (mk_node ''start'' ''Start'' StartNode);
          d = add_node d (mk_node ''decision'' ''Decision'' DecisionNode);
          d = add_node d (mk_node ''manual_review'' ''Manual review''
                            (HumanTaskNode (Some ''manager'') NORMAL));
          d = add_node d (mk_node ''end'' ''End'' EndNode);
          d = connect_nodes d ''start'' ''decision'' None;
          d = connect_nodes d ''decision'' ''manual_review'' (Some ''{score} < 700'');
          d = connect_nodes d ''decision'' ''end'' None;
          d = connect_nodes d ''manual_review'' ''end'' None
      in d)"

text \<open>Scenario C: start, fork, the service tasks A and B, join, end.\<close>

definition scenario_c :: WorkflowDefinition where
  "scenario_c =
     (let d = mk_definition ''parallel'' ''Parallel'';
          d = add_node d (mk_node ''start'' ''Start'' StartNode);
          d = add_node d (mk_node ''fork'' ''Fork'' (ParallelGatewayNode ''fork''));
          d = add_node d (mk_node ''a'' ''A'' (ServiceTaskNode ''svc_a'' ''run'' [] []));
          d = add_node d (mk_node ''b'' ''B'' (ServiceTaskNode ''svc_b'' ''run'' [] []));
          d = add_node d (mk_node ''join'' ''Join'' (ParallelGatewayNode ''join''));
          d = add_node d (mk_node ''end'' ''End'' EndNode);
          d = connect_nodes d ''start'' ''fork'' None;
          d = connect_nodes d ''fork'' ''a'' None;
          d = connect_nodes d ''fork'' ''b'' None;
          d = connect_nodes d ''a'' ''join'' None;
          d = connect_nodes d ''b'' ''join'' None;
          d = connect_nodes d ''join'' ''end'' None
      in d)"


text \<open>A fork whose first branch is the end node and whose second is a human task.\<close>

definition fork_end_task :: WorkflowDefinition where
  "fork_end_task =
     (let d = mk_definition ''fork_end_task'' ''Fork'';
          d = add_node d (mk_node ''start'' ''Start'' StartNode);
          d = add_node d (mk_node ''fork'' ''Fork'' (ParallelGatewayNode ''fork''));
          d = add_node d (mk_node ''review'' ''Review'' (HumanTaskNode (Some ''manager'') NORMAL));
          d = add_node d (mk_node ''end'' ''End'' EndNode);
          d = connect_nodes d ''start'' ''fork'' None;
          d = connect_nodes d ''fork'' ''end'' None;
          d = connect_nodes d ''fork'' ''review'' None;
          d = connect_nodes d ''review'' ''end'' None
      in d)"

text \<open>
  A fork whose first branch is a node that fails and whose second is a service task.
  The first branch is a subclass of \<^verbatim>\<open>WorkflowNode\<close> whose \<^verbatim>\<open>execute\<close> raises.
\<close>

definition boom :: "ExecutionContext \<Rightarrow> NodeResult outcome \<times> ExecutionContext" where
  "boom c = (Raises ''boom'', c)"

definition fork_boom_end :: WorkflowDefinition where
  "fork_boom_end =
     (let d = mk_definition ''fork_boom_end'' ''Fork'';
          d = add_node d (mk_node ''start'' ''Start'' StartNode);
          d = add_node d (mk_node ''fork'' ''Fork'' (ParallelGatewayNode ''fork''));
          d = add_node d (mk_node ''boom'' ''Boom'' (CustomNode SCRIPT_TASK boom));
          d = add_node d (mk_node ''b'' ''B'' (ServiceTaskNode ''svc_b'' ''run'' [] []));
          d = add_node d (mk_node ''end'' ''End'' EndNode);
          d = connect_nodes d ''start'' ''fork'' None;
          d = connect_nodes d ''fork'' ''boom'' None;
          d = connect_nodes d ''fork'' ''b'' None;
          d = connect_nodes d ''boom'' ''end'' None;
          d = connect_nodes d ''b'' ''end'' None
      in d)"

text \<open>
  A decision with two conditional edges. The first condition is the text
  \<^verbatim>\<open>var.value\<close>, and the run is given, as its last variable, an object whose truth
  test raises, as that of an array of several elements does.
\<close>

definition scenario_t :: WorkflowDefinition where
  "scenario_t =
     (let d = mk_definition ''truth'' ''Truth'';
          d = add_node d (mk_node ''start'' ''Start'' StartNode);
          d = add_node d (mk_node ''decision'' ''Decision'' DecisionNode);
          d = add_node d (mk_node ''manual_review'' ''Manual review''
                            (HumanTaskNode (Some ''manager'') NORMAL));
          d = add_node d (mk_node ''end'' ''End'' EndNode);
          d = connect_nodes d ''start'' ''decision'' None;
          d = connect_nodes d ''decision'' ''end'' (Some ''var.value'');
          d = connect_nodes d ''decision'' ''manual_review'' (Some ''{score} < 700'');
          d = connect_nodes d ''manual_review'' ''end'' None
      in d)"

definition array_object :: pyval where
  "array_object = PObject ''ndarray'' (Raises ''the truth value of an array is ambiguous'')"

text \<open>
  A workflow of nodes that fail: a start node and a node of type END whose
  \<^verbatim>\<open>execute\<close> raises, a node in between that raises, and one that is cancelled, that
  is, raises outside \<^verbatim>\<open>Exception\<close>.
\<close>

definition cancel :: "ExecutionContext \<Rightarrow> NodeResult outcome \<times> ExecutionContext" where
  "cancel c = (Aborts ''cancelled'', c)"

definition failures :: WorkflowDefinition where
  "failures =
     (let d = mk_definition ''failures'' ''Failures'';
          d = add_node d (mk_node ''start'' ''Start'' (CustomNode START boom));
          d = add_node d (mk_node ''boom'' ''Boom'' (CustomNode SCRIPT_TASK boom));
          d = add_node d (mk_node ''cancel'' ''Cancel'' (CustomNode SCRIPT_TASK cancel));
          d = add_node d (mk_node ''bad_end'' ''Bad end'' (CustomNode END boom));
          d = add_node d (mk_node ''end'' ''End'' EndNode);
          d = connect_nodes d ''start'' ''boom'' None;
          d = connect_nodes d ''start'' ''cancel'' None;
          d = connect_nodes d ''boom'' ''bad_end'' None;
          d = connect_nodes d ''cancel'' ''end'' None
      in d)"

text \<open>The context \<^verbatim>\<open>start_workflow\<close> makes for the given initial variables.\<close>

definition context_of :: "(string \<times> pyval) list \<Rightarrow> ExecutionContext" where
  "context_of vars =
     \<lparr>workflow_id = ''w'', execution_id = ''e1'', user_id = ''user'', company_id = ''company'',
      variables = initial_variables vars\<rparr>"

text \<open>
  The engine after scenario B was registered and started with a score of 650, as run
  \<^verbatim>\<open>e1\<close>.
\<close>

definition engine_b :: WorkflowEngine where
  "engine_b =
     (case register_workflow new_engine scenario_b of
        Inl err \<Rightarrow> new_engine
      | Inr e \<Rightarrow>
          (case start_workflow python 10 e ''credit'' ''user'' ''company''
                  [(''score'', PInt 650)] ''e1'' of
             Some (Inr (e', eid)) \<Rightarrow> e'
           | _ \<Rightarrow> e))"

subsection \<open>Notions of the statements\<close>

text \<open>
  The invariant of a definition in the words of the specification: exactly one start
  node, at least one end node, an incoming edge on every node that is no start node and
  an outgoing edge on every node that is no end node.
\<close>

definition spec_invariant :: "WorkflowDefinition \<Rightarrow> bool" where
  "spec_invariant d =
     (let ns = map snd (def_nodes d)
      in length (filter (\<lambda>n. node_type n = START) ns) = 1
         \<and> length (filter (\<lambda>n. node_type n = END) ns) \<ge> 1
         \<and> list_all (\<lambda>n. node_type n \<noteq> START \<longrightarrow> incoming n \<noteq> []) ns
         \<and> list_all (\<lambda>n. node_type n \<noteq> END \<longrightarrow> outgoing n \<noteq> []) ns)"

text \<open>
  The context a decision has reached when it has tested the given connections, one
  after the other.
\<close>

definition context_after ::
  "builtins \<Rightarrow> ExecutionContext \<Rightarrow> connection list \<Rightarrow> ExecutionContext" where
  "context_after py context cs = fold (\<lambda>c context1. snd (edge_test py context1 c)) cs context"

text \<open>
  What is seen of a run that returned: its status, the nodes executed in order, and the
  ids with a waiting task; and of the record of one node: its status, its error
  message, and the decision and next nodes of its result.
\<close>

definition observe ::
  "(py_error \<times> WorkflowExecution + WorkflowExecution) option
     \<Rightarrow> (ExecutionStatus \<times> (string \<times> NodeType) list \<times> string list) option" where
  "observe r =
     (case r of
        Some (Inr x) \<Rightarrow> Some (status x, exec_log x, map fst (waiting_tasks x))
      | _ \<Rightarrow> None)"

definition observe_record ::
  "(py_error \<times> WorkflowExecution + WorkflowExecution) option \<Rightarrow> string
     \<Rightarrow> (ExecutionStatus \<times> string option \<times> string option \<times> string list option) option" where
  "observe_record r nid =
     (case r of
        Some (Inr x) \<Rightarrow>
          (case map_of (node_executions x) nid of
             Some e \<Rightarrow>
               Some (ne_status e, ne_error_message e,
                     (case ne_output_data e of Some res \<Rightarrow> res_decision res | None \<Rightarrow> None),
                     (case ne_output_data e of Some res \<Rightarrow> res_next_nodes res | None \<Rightarrow> None))
           | None \<Rightarrow> None)
      | _ \<Rightarrow> None)"


definition completed_step :: "WorkflowExecution \<Rightarrow> WorkflowExecution \<Rightarrow> bool" where
  "completed_step x x' =
     (set (exec_log x) \<subseteq> set (exec_log x')
      \<and> (status x' = COMPLETED \<longrightarrow> status x = COMPLETED \<or> END \<in> snd ` set (exec_log x')))"

section \<open>Properties\<close>

subsection \<open>connect\_nodes\<close>

text \<open>
  C10. \<^verbatim>\<open>connect_nodes(from_node, to_node, condition)\<close> leaves the definition as it is
  when either id is no key of the node dict, and raises nothing (the function has no
  error result). When both ids are keys, the keys and their order stay, the node under
  \<open>from_node\<close> gains the outgoing entry and the node under \<open>to_node\<close> the incoming one
  (one node gains both when the ids are equal), and every other node is untouched.
\<close>

theorem connect_nodes_correct:
  "(map_of (def_nodes d) f = None \<or> map_of (def_nodes d) t = None
      \<longrightarrow> connect_nodes d f t c = d)
   \<and> (\<forall>nf nt. map_of (def_nodes d) f = Some nf \<and> map_of (def_nodes d) t = Some nt \<longrightarrow>
         map fst (def_nodes (connect_nodes d f t c)) = map fst (def_nodes d)
       \<and> map_of (def_nodes (connect_nodes d f t c)) f =
            Some (if f = t then add_incoming (add_outgoing nf t c) f c else add_outgoing nf t c)
       \<and> map_of (def_nodes (connect_nodes d f t c)) t =
            Some (if f = t then add_incoming (add_outgoing nf t c) f c else add_incoming nt f c)
       \<and> (\<forall>k. k \<noteq> f \<and> k \<noteq> t \<longrightarrow>
             map_of (def_nodes (connect_nodes d f t c)) k = map_of (def_nodes d) k))"
proof (intro conjI impI allI)
  assume "map_of (def_nodes d) f = None \<or> map_of (def_nodes d) t = None"
  then show "connect_nodes d f t c = d"
    by (auto simp: connect_nodes_def split: option.splits)
next
  fix nf nt
  assume h: "map_of (def_nodes d) f = Some nf \<and> map_of (def_nodes d) t = Some nt"
  have kf: "f \<in> set (map fst (def_nodes d))" and kt: "t \<in> set (map fst (def_nodes d))"
    using h by (auto dest: map_of_SomeD intro: rev_image_eqI)
  show "map fst (def_nodes (connect_nodes d f t c)) = map fst (def_nodes d)"
    using h kf kt by (auto simp: connect_nodes_def update_conv' update_keys Let_def)
  show "map_of (def_nodes (connect_nodes d f t c)) f =
            Some (if f = t then add_incoming (add_outgoing nf t c) f c else add_outgoing nf t c)"
    using h by (auto simp: connect_nodes_def update_conv' Let_def)
  show "map_of (def_nodes (connect_nodes d f t c)) t =
            Some (if f = t then add_incoming (add_outgoing nf t c) f c else add_incoming nt f c)"
    using h by (auto simp: connect_nodes_def update_conv' Let_def)
  fix k
  assume "k \<noteq> f \<and> k \<noteq> t"
  then show "map_of (def_nodes (connect_nodes d f t c)) k = map_of (def_nodes d) k"
    using h by (auto simp: connect_nodes_def update_conv' Let_def)
qed

text \<open>
  On \<open>two_nodes\<close>: connecting to the unknown id \<^verbatim>\<open>ghost\<close> changes nothing, connecting
  start to end records the edge on both nodes.
\<close>

theorem connect_nodes_correct_witness:
  "connect_nodes two_nodes ''start'' ''ghost'' None = two_nodes
   \<and> map_of (def_nodes (connect_nodes two_nodes ''start'' ''end'' None)) ''start''
       = Some (add_outgoing (mk_node ''start'' ''Start'' StartNode) ''end'' None)
   \<and> map_of (def_nodes (connect_nodes two_nodes ''start'' ''end'' None)) ''end''
       = Some (add_incoming (mk_node ''end'' ''End'' EndNode) ''start'' None)"
proof -
  have a: "map_of (def_nodes two_nodes) ''ghost'' = None"
    by (simp add: two_nodes_def add_node_def mk_definition_def mk_node_def)
  have b: "map_of (def_nodes two_nodes) ''start'' = Some (mk_node ''start'' ''Start'' StartNode)"
    by (simp add: two_nodes_def add_node_def mk_definition_def mk_node_def)
  have c: "map_of (def_nodes two_nodes) ''end'' = Some (mk_node ''end'' ''End'' EndNode)"
    by (simp add: two_nodes_def add_node_def mk_definition_def mk_node_def)
  from connect_nodes_correct [of two_nodes "''start''" "''ghost''" None] a
  have 1: "connect_nodes two_nodes ''start'' ''ghost'' None = two_nodes" by blast
  from connect_nodes_correct [of two_nodes "''start''" "''end''" None] b c
  have 2: "map_of (def_nodes (connect_nodes two_nodes ''start'' ''end'' None)) ''start''
       = Some (add_outgoing (mk_node ''start'' ''Start'' StartNode) ''end'' None)
   \<and> map_of (def_nodes (connect_nodes two_nodes ''start'' ''end'' None)) ''end''
       = Some (add_incoming (mk_node ''end'' ''End'' EndNode) ''start'' None)"
    by auto
  from 1 2 show ?thesis by simp
qed

subsection \<open>validate\<close>

lemma start_errors_Nil: "start_errors ns = [] \<longleftrightarrow> length ns = 1"
  by (cases ns) (auto simp: start_errors_def)

lemma end_errors_Nil: "end_errors ns = [] \<longleftrightarrow> ns \<noteq> []"
  by (simp add: end_errors_def)

lemma connectivity_errors_Nil:
  "connectivity_errors n = [] \<longleftrightarrow>
     (node_type n \<noteq> START \<and> node_type n \<noteq> END \<longrightarrow> incoming n \<noteq> [] \<and> outgoing n \<noteq> [])"
  by (auto simp: connectivity_errors_def)

lemma length_connectivity_errors:
  "length (connectivity_errors n) =
     (if node_type n \<noteq> START \<and> node_type n \<noteq> END
      then (if incoming n = [] then 1 else 0) + (if outgoing n = [] then 1 else 0) else 0)"
  by (auto simp: connectivity_errors_def)

text \<open>
  C7, as the code has it. \<^verbatim>\<open>validate()\<close> returns the empty list if and only if the
  definition has exactly one START node, at least one END node, and every node that is
  neither a START nor an END node has an incoming and an outgoing edge: the connections
  of START and END nodes are not looked at. It does not stop at the first violation:
  the list has one diagnostic for the START count when it is not one, one for a missing
  END node, and one for each missing direction of each node in between.
\<close>

theorem validate_diagnostics:
  "(validate d = [] \<longleftrightarrow>
      length (filter (\<lambda>n. node_type n = START) (map snd (def_nodes d))) = 1
      \<and> (\<exists>n \<in> set (map snd (def_nodes d)). node_type n = END)
      \<and> (\<forall>n \<in> set (map snd (def_nodes d)).
             node_type n \<noteq> START \<and> node_type n \<noteq> END \<longrightarrow> incoming n \<noteq> [] \<and> outgoing n \<noteq> []))
   \<and> length (validate d) =
       (if length (filter (\<lambda>n. node_type n = START) (map snd (def_nodes d))) = 1 then 0 else 1)
       + (if \<exists>n \<in> set (map snd (def_nodes d)). node_type n = END then 0 else 1)
       + sum_list (map (\<lambda>n. if node_type n \<noteq> START \<and> node_type n \<noteq> END
                             then (if incoming n = [] then 1 else 0) + (if outgoing n = [] then 1 else 0)
                             else 0) (map snd (def_nodes d)))"
proof -
  let ?ns = "map snd (def_nodes d)"
  let ?starts = "filter (\<lambda>n. node_type n = START) ?ns"
  let ?ends = "filter (\<lambda>n. node_type n = END) ?ns"
  have v: "validate d = start_errors ?starts @ end_errors ?ends @ concat (map connectivity_errors ?ns)"
    by (simp add: validate_def Let_def)
  have e: "?ends \<noteq> [] \<longleftrightarrow> (\<exists>n \<in> set ?ns. node_type n = END)"
    by (simp add: filter_empty_conv)
  have c: "concat (map connectivity_errors ?ns) = [] \<longleftrightarrow>
      (\<forall>n \<in> set ?ns. node_type n \<noteq> START \<and> node_type n \<noteq> END \<longrightarrow> incoming n \<noteq> [] \<and> outgoing n \<noteq> [])"
    using connectivity_errors_Nil by auto
  have l1: "length (start_errors ?starts) = (if length ?starts = 1 then 0 else 1)"
    by (cases ?starts) (auto simp: start_errors_def)
  have l2: "length (end_errors ?ends) = (if \<exists>n \<in> set ?ns. node_type n = END then 0 else 1)"
    by (auto simp: end_errors_def filter_empty_conv)
  have l3: "length (concat (map connectivity_errors ?ns)) =
      sum_list (map (\<lambda>n. if node_type n \<noteq> START \<and> node_type n \<noteq> END
                             then (if incoming n = [] then 1 else 0) + (if outgoing n = [] then 1 else 0)
                             else 0) ?ns)"
    by (simp add: length_concat comp_def length_connectivity_errors)
  have iff: "validate d = [] \<longleftrightarrow>
      length ?starts = 1 \<and> (\<exists>n \<in> set ?ns. node_type n = END)
      \<and> (\<forall>n \<in> set ?ns. node_type n \<noteq> START \<and> node_type n \<noteq> END \<longrightarrow> incoming n \<noteq> [] \<and> outgoing n \<noteq> [])"
    unfolding v using start_errors_Nil end_errors_Nil e c by simp
  have len: "length (validate d) = length (start_errors ?starts) + length (end_errors ?ends)
      + length (concat (map connectivity_errors ?ns))"
    unfolding v by simp
  show ?thesis using iff len l1 l2 l3 by presburger
qed

text \<open>
  Scenario B is valid; \<open>no_end\<close> gets two diagnostics, for the missing end node and
  for the service task without an outgoing edge.
\<close>

theorem validate_diagnostics_witness:
  "validate scenario_b = [] \<and> length (validate no_end) = 2"
proof -
  have a: "length (filter (\<lambda>n. node_type n = START) (map snd (def_nodes scenario_b))) = 1
      \<and> (\<exists>n \<in> set (map snd (def_nodes scenario_b)). node_type n = END)
      \<and> (\<forall>n \<in> set (map snd (def_nodes scenario_b)).
             node_type n \<noteq> START \<and> node_type n \<noteq> END \<longrightarrow> incoming n \<noteq> [] \<and> outgoing n \<noteq> [])"
    by code_simp
  have b: "(if length (filter (\<lambda>n. node_type n = START) (map snd (def_nodes no_end))) = 1 then 0 else 1)
       + (if \<exists>n \<in> set (map snd (def_nodes no_end)). node_type n = END then 0 else 1)
       + sum_list (map (\<lambda>n. if node_type n \<noteq> START \<and> node_type n \<noteq> END
                             then (if incoming n = [] then 1 else 0) + (if outgoing n = [] then 1 else 0)
                             else 0) (map snd (def_nodes no_end))) = (2::nat)"
    by code_simp
  from a validate_diagnostics [of scenario_b] have 1: "validate scenario_b = []" by blast
  from b validate_diagnostics [of no_end] have 2: "length (validate no_end) = 2" by simp
  from 1 2 show ?thesis by simp
qed

text \<open>
  On \<open>two_nodes\<close> the list is empty, yet the invariant in the words of the
  specification does not hold: the end node has no incoming edge and the start node no
  outgoing one.
\<close>

theorem validate_two_nodes_counterexample:
  "validate two_nodes = [] \<and> \<not> spec_invariant two_nodes"
  by (simp add: validate_def spec_invariant_def two_nodes_def add_node_def mk_definition_def
      mk_node_def start_errors_def end_errors_def connectivity_errors_def node_type_def)

subsection \<open>register\_workflow and start\_workflow\<close>

text \<open>
  C8. \<^verbatim>\<open>register_workflow\<close> raises the error "Workflow invalido" with the
  diagnostics exactly when \<^verbatim>\<open>validate\<close> reports one, and then the engine is as it was:
  if the id was not registered before, \<^verbatim>\<open>start_workflow\<close> on it raises "Workflow nao
  encontrado", so no run starts. Without diagnostics the definition is stored under
  its id. A definition without an END node has the diagnostic of the missing end node.
\<close>

theorem register_workflow_correct:
  "(validate d \<noteq> [] \<longrightarrow>
       register_workflow e d = Inl (ValueError (Workflow_invalido (validate d)))
     \<and> (map_of (workflow_definitions e) (def_workflow_id d) = None \<longrightarrow>
          start_workflow py depth e (def_workflow_id d) uid cid vars eid
            = Some (Inl (ValueError (Workflow_nao_encontrado (def_workflow_id d))))))
   \<and> (validate d = [] \<longrightarrow>
       register_workflow e d =
         Inr (e\<lparr>workflow_definitions := AList.update (def_workflow_id d) d (workflow_definitions e)\<rparr>))
   \<and> (list_all (\<lambda>n. node_type n \<noteq> END) (map snd (def_nodes d)) \<longrightarrow> Sem_fim \<in> set (validate d))"
  by (auto simp: register_workflow_def start_workflow_def Let_def validate_def end_errors_def
        list_all_iff filter_empty_conv)

text \<open>Registering \<open>no_end\<close> with a new engine fails, and so does starting it.\<close>

theorem register_workflow_correct_witness:
  "register_workflow new_engine no_end
     = Inl (ValueError (Workflow_invalido [Sem_fim, Sem_saida ''Processar'']))
   \<and> start_workflow python 10 new_engine ''no_end'' ''user'' ''company'' [] ''e1''
       = Some (Inl (ValueError (Workflow_nao_encontrado ''no_end'')))
   \<and> Sem_fim \<in> set (validate no_end)"
proof -
  have v: "validate no_end = [Sem_fim, Sem_saida ''Processar'']" by code_simp
  have i: "def_workflow_id no_end = ''no_end''" by code_simp
  have m: "map_of (workflow_definitions new_engine) (def_workflow_id no_end) = None"
    by (simp add: new_engine_def)
  have l: "list_all (\<lambda>n. node_type n \<noteq> END) (map snd (def_nodes no_end))" by code_simp
  have ne: "validate no_end \<noteq> []" using v by simp
  from register_workflow_correct
         [of no_end new_engine python 10 "''user''" "''company''" "[]" "''e1''"] ne m l
  have "register_workflow new_engine no_end = Inl (ValueError (Workflow_invalido (validate no_end)))
     \<and> start_workflow python 10 new_engine (def_workflow_id no_end) ''user'' ''company'' [] ''e1''
            = Some (Inl (ValueError (Workflow_nao_encontrado (def_workflow_id no_end))))
     \<and> Sem_fim \<in> set (validate no_end)"
    by blast
  then show ?thesis using v i by simp
qed

subsection \<open>Decisions\<close>

lemma context_after_Nil [simp]: "context_after py c [] = c"
  by (simp add: context_after_def)

lemma context_after_Cons [simp]:
  "context_after py c (e # es) = context_after py (snd (edge_test py c e)) es"
  by (simp add: context_after_def)










text \<open>
  \<open>scenario_t\<close> run: the decision fails on the truth test of its first edge, and the
  run is FAILED with the error in the record of the decision.
\<close>

lemma scenario_t_run:
  "observe (start python 10
              (new_execution scenario_t (context_of [(''score'', PInt 650), (''arr'', array_object)])))
       = Some (FAILED, [(''Start'', START), (''Decision'', DECISION)], [])
   \<and> observe_record
         (start python 10
            (new_execution scenario_t (context_of [(''score'', PInt 650), (''arr'', array_object)])))
         ''decision''
       = Some (FAILED, Some ''the truth value of an array is ambiguous'', None, None)"
  by code_simp

subsection \<open>Parallel gateways\<close>

text \<open>
  C3, as the code has it. A parallel gateway has no barrier: whatever its
  \<^verbatim>\<open>gateway_type\<close> and whatever has arrived, its \<^verbatim>\<open>execute\<close> returns status
  \<^verbatim>\<open>completed\<close> with all its outgoing targets as next nodes, and every time
  \<^verbatim>\<open>_continue_execution\<close> reaches it, the node is executed and the run goes on to
  those targets. A join with N incoming edges is therefore passed once per arriving
  branch.
\<close>

theorem parallel_gateway_no_barrier:
  "node_class node = ParallelGatewayNode g \<longrightarrow>
     (\<exists>r. execute py node c = (Returns r, c) \<and> res_status r = ''completed''
          \<and> res_next_nodes r = Some (next_of node))
     \<and> (map_of (def_nodes (workflow_def x)) nid = Some node \<longrightarrow>
          continue_execution py (Suc depth) x nid =
            for_each (continue_execution py depth) (next_of node) (snd (execute_node py x node)))"
  by (auto simp: execute_def result_of_def execute_node_def node_type_def Let_def)

text \<open>The join of scenario C, reached on a new run: it goes on to the end node.\<close>

theorem parallel_gateway_no_barrier_witness:
  "\<exists>node r. map_of (def_nodes scenario_c) ''join'' = Some node
      \<and> node_class node = ParallelGatewayNode ''join''
      \<and> execute python node (context_of []) = (Returns r, context_of [])
      \<and> res_status r = ''completed'' \<and> res_next_nodes r = Some [''end'']
      \<and> continue_execution python 3 (new_execution scenario_c (context_of [])) ''join'' =
            for_each (continue_execution python 2) [''end'']
              (snd (execute_node python (new_execution scenario_c (context_of [])) node))"
proof -
  have "case map_of (def_nodes scenario_c) ''join'' of
          Some n \<Rightarrow> (case node_class n of ParallelGatewayNode g \<Rightarrow> g = ''join'' | _ \<Rightarrow> False)
                    \<and> next_of n = [''end'']
        | None \<Rightarrow> False"
    by code_simp
  then obtain node where n: "map_of (def_nodes scenario_c) ''join'' = Some node"
    and c: "node_class node = ParallelGatewayNode ''join''" and o: "next_of node = [''end'']"
    by (auto split: option.splits node_class.splits)
  have w: "def_nodes (workflow_def (new_execution scenario_c (context_of []))) = def_nodes scenario_c"
    by (simp add: new_execution_def)
  from parallel_gateway_no_barrier
         [of node "''join''" python "context_of []" "new_execution scenario_c (context_of [])"
             "''join''" 2] n c o w
  show ?thesis by (auto simp: numeral_3_eq_3 numeral_2_eq_2)
qed

text \<open>
  Scenario C run: the join is executed after A alone has arrived, and the end node
  follows it before B has run; then B arrives, and the join and the end node are
  executed a second time. The join, with two incoming edges, releases twice, each time
  after one arrival.
\<close>

theorem scenario_c_counterexample:
  "observe (start python 10 (new_execution scenario_c (context_of [])))
     = Some (COMPLETED,
             [(''Start'', START), (''Fork'', PARALLEL_GATEWAY), (''A'', SERVICE_TASK),
              (''Join'', PARALLEL_GATEWAY), (''End'', END), (''B'', SERVICE_TASK),
              (''Join'', PARALLEL_GATEWAY), (''End'', END)],
             [])"
  by code_simp

subsection \<open>The status of a run\<close>

lemma execute_node_status [simp]: "status (snd (execute_node py x node)) = status x"
  by (auto simp: execute_node_def set_record_def Let_def
        split: prod.splits outcome.splits option.splits)

lemma execute_node_log [simp]:
  "exec_log (snd (execute_node py x node)) = exec_log x @ [(node_name node, node_type node)]"
  by (auto simp: execute_node_def set_record_def Let_def
        split: prod.splits outcome.splits option.splits)

lemma execute_node_workflow_def [simp]:
  "workflow_def (snd (execute_node py x node)) = workflow_def x"
  by (auto simp: execute_node_def set_record_def Let_def
        split: prod.splits outcome.splits option.splits)

text \<open>A relation that every call of the body keeps is kept by the loop.\<close>

lemma for_each_invariant:
  assumes step: "\<And>x i x'. body x i = Some (Inr x') \<Longrightarrow> R x x'"
    and refl: "\<And>x. R x x"
    and trans: "\<And>x y z. R x y \<Longrightarrow> R y z \<Longrightarrow> R x z"
  shows "for_each body ids x = Some (Inr x') \<Longrightarrow> R x x'"
proof (induction ids arbitrary: x)
  case Nil
  then show ?case by (simp add: refl)
next
  case (Cons i ids)
  then obtain y where y: "body x i = Some (Inr y)" and r: "for_each body ids y = Some (Inr x')"
    by (auto split: option.splits sum.splits)
  from step [OF y] Cons.IH [OF r] show ?case by (rule trans)
qed

text \<open>
  The bound on the depth only cuts runs off: a call that ends within a depth ends the
  same way within every greater one.
\<close>

lemma for_each_mono:
  assumes "\<And>x i r. f x i = Some r \<Longrightarrow> g x i = Some r"
  shows "for_each f ids x = Some r \<Longrightarrow> for_each g ids x = Some r"
proof (induction ids arbitrary: x)
  case Nil
  then show ?case by simp
next
  case (Cons i ids)
  then obtain q where q: "f x i = Some q" by (auto split: option.splits)
  show ?case
  proof (cases q)
    case (Inl ex)
    with q Cons.prems have "r = Inl ex" by simp
    with assms [OF q] Inl show ?thesis by simp
  next
    case (Inr y)
    with q Cons.prems have "for_each f ids y = Some r" by simp
    from Cons.IH [OF this] assms [OF q] Inr show ?thesis by simp
  qed
qed

text \<open>
  The three ways \<^verbatim>\<open>_continue_execution\<close> ends at a node it finds: an exception left
  \<^verbatim>\<open>_execute_node\<close>; the node is an end node, failed or waits; or the run goes on to
  the next nodes.
\<close>

lemma continue_execution_cases:
  assumes "map_of (def_nodes (workflow_def x)) nid = Some node"
  obtains
    (escaped) err x1 where "execute_node py x node = (Inl err, x1)"
      "continue_execution py (Suc depth) x nid = Some (Inl (err, x1))"
  | (stopped) result x1 where "execute_node py x node = (Inr result, x1)"
      "node_type node = END \<or> res_status result = ''failed'' \<or> res_status result = ''waiting''"
      "continue_execution py (Suc depth) x nid =
         Some (Inr (if node_type node = END then x1\<lparr>status := COMPLETED, completed_at := True\<rparr>
                    else if res_status result = ''failed'' then x1\<lparr>status := FAILED\<rparr> else x1))"
  | (advanced) result x1 where "execute_node py x node = (Inr result, x1)"
      "node_type node \<noteq> END" "res_status result \<noteq> ''failed''" "res_status result \<noteq> ''waiting''"
      "continue_execution py (Suc depth) x nid =
         for_each (continue_execution py depth)
           (case res_next_nodes result of None \<Rightarrow> [] | Some ns \<Rightarrow> ns) x1"
proof -
  obtain q x1 where e: "execute_node py x node = (q, x1)" by (cases "execute_node py x node")
  show thesis
  proof (cases q)
    case (Inl err)
    with e assms show thesis by (intro escaped [of err x1]) auto
  next
    case (Inr result)
    show thesis
    proof (cases "node_type node = END \<or> res_status result = ''failed''
                    \<or> res_status result = ''waiting''")
      case True
      with e Inr assms show thesis by (intro stopped [of result x1]) auto
    next
      case False
      with e Inr assms show thesis by (intro advanced [of result x1]) auto
    qed
  qed
qed

lemma continue_execution_mono:
  "continue_execution py n x nid = Some r \<Longrightarrow> n \<le> m
     \<Longrightarrow> continue_execution py m x nid = Some r"
proof (induction n arbitrary: m x nid r)
  case 0
  then show ?case by simp
next
  case (Suc n)
  from Suc.prems obtain k where m: "m = Suc k" and nk: "n \<le> k" by (cases m) auto
  have step: "\<And>y i q. continue_execution py n y i = Some q
                \<Longrightarrow> continue_execution py k y i = Some q"
    using Suc.IH nk by blast
  show ?case
  proof (cases "map_of (def_nodes (workflow_def x)) nid")
    case None
    with Suc.prems m show ?thesis by simp
  next
    case (Some node)
    from Some show ?thesis
    proof (cases rule: continue_execution_cases [where py = py and depth = n])
      case (escaped err x1)
      with Suc.prems Some m show ?thesis by simp
    next
      case (stopped result x1)
      with Suc.prems Some m show ?thesis by (auto split: if_splits)
    next
      case (advanced result x1)
      with Suc.prems
      have f: "for_each (continue_execution py n)
                 (case res_next_nodes result of None \<Rightarrow> [] | Some ns \<Rightarrow> ns) x1 = Some r"
        by simp
      from for_each_mono [of "continue_execution py n" "continue_execution py k", OF step f]
      show ?thesis using advanced Some m by simp
    qed
  qed
qed


lemma completed_step_refl: "completed_step x x"
  by (simp add: completed_step_def)

lemma completed_step_trans:
  "completed_step x y \<Longrightarrow> completed_step y z \<Longrightarrow> completed_step x z"
  by (auto simp: completed_step_def)

lemma continue_execution_completed:
  "continue_execution py depth x nid = Some (Inr x') \<Longrightarrow> completed_step x x'"
proof (induction depth arbitrary: x nid x')
  case 0
  then show ?case by simp
next
  case (Suc depth)
  show ?case
  proof (cases "map_of (def_nodes (workflow_def x)) nid")
    case None
    with Suc.prems show ?thesis by (simp add: completed_step_def)
  next
    case (Some node)
    from Some show ?thesis
    proof (cases rule: continue_execution_cases [where py = py and depth = depth])
      case (escaped err x1)
      with Suc.prems show ?thesis by simp
    next
      case (stopped result x1)
      have "status x1 = status x" using execute_node_status [of py x node] stopped(1) by simp
      moreover have "exec_log x1 = exec_log x @ [(node_name node, node_type node)]"
        using execute_node_log [of py x node] stopped(1) by simp
      ultimately show ?thesis
        using Suc.prems stopped by (auto simp: completed_step_def split: if_splits)
    next
      case (advanced result x1)
      have s1: "status x1 = status x" using execute_node_status [of py x node] advanced(1) by simp
      have l1: "exec_log x1 = exec_log x @ [(node_name node, node_type node)]"
        using execute_node_log [of py x node] advanced(1) by simp
      from Suc.prems advanced
      have f: "for_each (continue_execution py depth)
                 (case res_next_nodes result of None \<Rightarrow> [] | Some ns \<Rightarrow> ns) x1 = Some (Inr x')"
        by simp
      have "completed_step x1 x'"
        by (rule for_each_invariant [where R = completed_step, OF _ _ _ f])
           (auto intro: completed_step_refl completed_step_trans dest: Suc.IH)
      with s1 l1 show ?thesis by (auto simp: completed_step_def)
    qed
  qed
qed

text \<open>What a call of \<^verbatim>\<open>start\<close> that returned went through.\<close>

lemma start_cases:
  assumes "start py depth x = Some (Inr x')"
  obtains start_node rest result x1 where
    "filter (\<lambda>n. node_type n = START) (map snd (def_nodes (workflow_def x))) = start_node # rest"
    "execute_node py (x\<lparr>status := RUNNING\<rparr>) start_node = (Inr result, x1)"
    "for_each (continue_execution py depth)
       (case res_next_nodes result of None \<Rightarrow> [] | Some ns \<Rightarrow> ns) x1 = Some (Inr x')"
  using assms
  by (auto simp: start_def Let_def split: list.splits prod.splits option.splits sum.splits)

lemma execute_node_end_node:
  "node_class node = EndNode \<Longrightarrow> \<exists>r x1. execute_node py x node = (Inr r, x1)"
  by (simp add: execute_node_def execute_def result_of_def set_record_def Let_def)




text \<open>
  C4, as the code has it. Whenever \<^verbatim>\<open>_continue_execution\<close> reaches an end node, the
  status of the run becomes COMPLETED at once, whatever tasks are waiting: the other
  branches are not asked. In the other direction, a run that \<^verbatim>\<open>start\<close> returns with
  status COMPLETED has executed an END node.
\<close>

theorem end_node_completes:
  "(\<forall>node. map_of (def_nodes (workflow_def x)) nid = Some node \<and> node_class node = EndNode \<longrightarrow>
       (\<exists>x'. continue_execution py (Suc depth) x nid = Some (Inr x') \<and> status x' = COMPLETED
            \<and> waiting_tasks x' = waiting_tasks x))
   \<and> (\<forall>x'. start py depth (new_execution d c) = Some (Inr x') \<and> status x' = COMPLETED \<longrightarrow>
         END \<in> snd ` set (exec_log x'))"
proof (intro conjI allI impI)
  fix node
  assume "map_of (def_nodes (workflow_def x)) nid = Some node \<and> node_class node = EndNode"
  then show "\<exists>x'. continue_execution py (Suc depth) x nid = Some (Inr x') \<and> status x' = COMPLETED
            \<and> waiting_tasks x' = waiting_tasks x"
    by (simp add: node_type_def execute_node_def execute_def result_of_def set_record_def Let_def)
next
  fix x'
  assume h: "start py depth (new_execution d c) = Some (Inr x') \<and> status x' = COMPLETED"
  then have s: "start py depth (new_execution d c) = Some (Inr x')" by simp
  from s obtain start_node rest result x1 where
    e: "execute_node py ((new_execution d c)\<lparr>status := RUNNING\<rparr>) start_node
          = (Inr result, x1)"
    and f: "for_each (continue_execution py depth)
       (case res_next_nodes result of None \<Rightarrow> [] | Some ns \<Rightarrow> ns) x1 = Some (Inr x')"
    by (rule start_cases)
  have s1: "status x1 = RUNNING"
    using execute_node_status [of py "(new_execution d c)\<lparr>status := RUNNING\<rparr>" start_node] e
    by simp
  have "completed_step x1 x'"
    by (rule for_each_invariant [where R = completed_step, OF _ _ _ f])
       (auto intro: completed_step_refl completed_step_trans continue_execution_completed)
  with s1 h show "END \<in> snd ` set (exec_log x')"
    by (auto simp: completed_step_def)
qed

text \<open>
  The end node of \<open>fork_end_task\<close> completes a new run in one step; and scenario C,
  which returns COMPLETED, has an END node in its log.
\<close>

theorem end_node_completes_witness:
  "(\<exists>x'. continue_execution python (Suc 0) (new_execution fork_end_task (context_of [])) ''end''
            = Some (Inr x')
       \<and> status x' = COMPLETED)
   \<and> (\<exists>x'. start python 10 (new_execution scenario_c (context_of [])) = Some (Inr x')
       \<and> status x' = COMPLETED \<and> END \<in> snd ` set (exec_log x'))"
proof -
  let ?x = "new_execution fork_end_task (context_of [])"
  have "case map_of (def_nodes fork_end_task) ''end'' of
          Some n \<Rightarrow> (case node_class n of EndNode \<Rightarrow> True | _ \<Rightarrow> False) | None \<Rightarrow> False"
    by code_simp
  then obtain node where n: "map_of (def_nodes (workflow_def ?x)) ''end'' = Some node"
    and c: "node_class node = EndNode"
    by (auto simp: new_execution_def split: option.splits node_class.splits)
  from end_node_completes [of ?x "''end''" python 0] n c
  have 1: "\<exists>x'. continue_execution python (Suc 0) ?x ''end'' = Some (Inr x')
             \<and> status x' = COMPLETED"
    by blast
  have "case start python 10 (new_execution scenario_c (context_of [])) of
          Some (Inr x') \<Rightarrow> status x' = COMPLETED | _ \<Rightarrow> False"
    by code_simp
  then obtain x' where s: "start python 10 (new_execution scenario_c (context_of [])) = Some (Inr x')"
    and t: "status x' = COMPLETED"
    by (auto split: option.splits sum.splits)
  from end_node_completes [of ?x "''end''" python 10 scenario_c "context_of []"] s t
  have "END \<in> snd ` set (exec_log x')" by blast
  with s t have 2: "\<exists>x'. start python 10 (new_execution scenario_c (context_of [])) = Some (Inr x')
       \<and> status x' = COMPLETED \<and> END \<in> snd ` set (exec_log x')"
    by (intro exI [of _ x']) simp
  from 1 2 show ?thesis by (rule conjI)
qed

text \<open>
  The fork of \<open>fork_end_task\<close>: the first branch reaches the end node, the second
  parks at the review. The run returns COMPLETED while the task at the review is still
  waiting.
\<close>

theorem fork_end_task_counterexample:
  "observe (start python 10 (new_execution fork_end_task (context_of [])))
     = Some (COMPLETED,
             [(''Start'', START), (''Fork'', PARALLEL_GATEWAY), (''End'', END),
              (''Review'', HUMAN_TASK)],
             [''review''])"
  by code_simp

text \<open>
  C6, as the code has it. What a failing node does to the run depends on where it is
  executed.
  \<^item> A node that is no END node, reached by \<^verbatim>\<open>_continue_execution\<close>, whose
    \<^verbatim>\<open>execute\<close> raises an \<^verbatim>\<open>Exception\<close> or returns status \<^verbatim>\<open>failed\<close>: its record is
    FAILED with the error message, the status of the run becomes FAILED and that branch
    stops (the log gains the failed node and nothing after it). Sibling branches are not
    cancelled: the loop over the next nodes that holds the failed one goes on with the
    remaining ids, from the state the failure left, and when the next of them is an end
    node the run is COMPLETED.
  \<^item> A node of type END that fails: its record is FAILED and the run is COMPLETED.
  \<^item> An exception outside \<^verbatim>\<open>Exception\<close>: it leaves \<^verbatim>\<open>_continue_execution\<close> and the
    loop that called it; the record of the node stays RUNNING and the status of the run
    is not changed.
  \<^item> A start node whose \<^verbatim>\<open>execute\<close> raises, run by \<^verbatim>\<open>start\<close>: its record is FAILED
    with the error message and \<^verbatim>\<open>start\<close> returns with status RUNNING.
\<close>

theorem failure_stops_one_branch:
  "(\<forall>node r. map_of (def_nodes (workflow_def x)) nid = Some node \<and> node_type node \<noteq> END
        \<and> fst (execute_node py x node) = Inr r \<and> res_status r = ''failed'' \<longrightarrow>
      (\<exists>x'. continue_execution py (Suc depth) x nid = Some (Inr x') \<and> status x' = FAILED
          \<and> exec_log x' = exec_log x @ [(node_name node, node_type node)]
          \<and> map_option ne_status (map_of (node_executions x') (node_id node)) = Some FAILED
          \<and> map_option ne_error_message (map_of (node_executions x') (node_id node))
              = Some (res_error r)
          \<and> for_each (continue_execution py (Suc depth)) (nid # rest) x
              = for_each (continue_execution py (Suc depth)) rest x'
          \<and> (\<forall>eid enode. map_of (def_nodes (workflow_def x)) eid = Some enode
                \<and> node_class enode = EndNode \<longrightarrow>
               (\<exists>x''. for_each (continue_execution py (Suc depth)) [nid, eid] x = Some (Inr x'')
                    \<and> status x'' = COMPLETED))))
   \<and> (\<forall>node r. map_of (def_nodes (workflow_def x)) nid = Some node \<and> node_type node = END
        \<and> fst (execute_node py x node) = Inr r \<and> res_status r = ''failed'' \<longrightarrow>
      (\<exists>x'. continue_execution py (Suc depth) x nid = Some (Inr x') \<and> status x' = COMPLETED
          \<and> map_option ne_status (map_of (node_executions x') (node_id node)) = Some FAILED))
   \<and> (\<forall>node err. map_of (def_nodes (workflow_def x)) nid = Some node
        \<and> fst (execute_node py x node) = Inl err \<longrightarrow>
      (\<exists>x1. continue_execution py (Suc depth) x nid = Some (Inl (err, x1)) \<and> status x1 = status x
          \<and> exec_log x1 = exec_log x @ [(node_name node, node_type node)]
          \<and> map_option ne_status (map_of (node_executions x1) (node_id node)) = Some RUNNING
          \<and> for_each (continue_execution py (Suc depth)) (nid # rest) x = Some (Inl (err, x1))))
   \<and> (\<forall>start_node others e.
        filter (\<lambda>n. node_type n = START) (map snd (def_nodes (workflow_def x))) = start_node # others
        \<and> fst (execute py start_node (exec_context x)) = Raises e \<longrightarrow>
      (\<exists>x'. start py depth x = Some (Inr x') \<and> status x' = RUNNING
          \<and> map_option ne_status (map_of (node_executions x') (node_id start_node)) = Some FAILED
          \<and> map_option ne_error_message (map_of (node_executions x') (node_id start_node))
              = Some (Some e)))"
proof (intro conjI allI impI)
  fix node r
  assume h: "map_of (def_nodes (workflow_def x)) nid = Some node \<and> node_type node \<noteq> END
        \<and> fst (execute_node py x node) = Inr r \<and> res_status r = ''failed''"
  obtain x1 where e: "execute_node py x node = (Inr r, x1)"
    using h by (cases "execute_node py x node") auto
  let ?x' = "x1\<lparr>status := FAILED\<rparr>"
  from h e have c: "continue_execution py (Suc depth) x nid = Some (Inr ?x')"
    by simp
  have l: "exec_log x1 = exec_log x @ [(node_name node, node_type node)]"
    using execute_node_log [of py x node] e by simp
  have w: "workflow_def x1 = workflow_def x"
    using execute_node_workflow_def [of py x node] e by simp
  have r: "map_option ne_status (map_of (node_executions x1) (node_id node)) = Some FAILED
      \<and> map_option ne_error_message (map_of (node_executions x1) (node_id node))
          = Some (res_error r)"
    using e h
    by (auto simp: execute_node_def set_record_def Let_def update_conv' result_of_def
          split: prod.splits outcome.splits option.splits if_splits)
  have s: "for_each (continue_execution py (Suc depth)) (nid # rest) x
              = for_each (continue_execution py (Suc depth)) rest ?x'"
    using c by (simp del: continue_execution.simps)
  have en: "\<forall>eid enode. map_of (def_nodes (workflow_def x)) eid = Some enode
                \<and> node_class enode = EndNode \<longrightarrow>
               (\<exists>x''. for_each (continue_execution py (Suc depth)) [nid, eid] x = Some (Inr x'')
                    \<and> status x'' = COMPLETED)"
  proof (intro allI impI)
    fix eid enode
    assume a: "map_of (def_nodes (workflow_def x)) eid = Some enode \<and> node_class enode = EndNode"
    then obtain q y where q: "execute_node py ?x' enode = (Inr q, y)"
      using execute_node_end_node [of enode py ?x'] by auto
    from a have t: "node_type enode = END" by (simp add: node_type_def)
    from a w have m: "map_of (def_nodes (workflow_def ?x')) eid = Some enode" by simp
    from m t q
    have "continue_execution py (Suc depth) ?x' eid
            = Some (Inr (y\<lparr>status := COMPLETED, completed_at := True\<rparr>))"
      by simp
    with c have "for_each (continue_execution py (Suc depth)) [nid, eid] x
            = Some (Inr (y\<lparr>status := COMPLETED, completed_at := True\<rparr>))"
      by (simp del: continue_execution.simps)
    then show "\<exists>x''. for_each (continue_execution py (Suc depth)) [nid, eid] x = Some (Inr x'')
                    \<and> status x'' = COMPLETED"
      by (intro exI [of _ "y\<lparr>status := COMPLETED, completed_at := True\<rparr>"]) simp
  qed
  show "\<exists>x'. continue_execution py (Suc depth) x nid = Some (Inr x') \<and> status x' = FAILED
          \<and> exec_log x' = exec_log x @ [(node_name node, node_type node)]
          \<and> map_option ne_status (map_of (node_executions x') (node_id node)) = Some FAILED
          \<and> map_option ne_error_message (map_of (node_executions x') (node_id node))
              = Some (res_error r)
          \<and> for_each (continue_execution py (Suc depth)) (nid # rest) x
              = for_each (continue_execution py (Suc depth)) rest x'
          \<and> (\<forall>eid enode. map_of (def_nodes (workflow_def x)) eid = Some enode
                \<and> node_class enode = EndNode \<longrightarrow>
               (\<exists>x''. for_each (continue_execution py (Suc depth)) [nid, eid] x = Some (Inr x'')
                    \<and> status x'' = COMPLETED))"
    using c l r s en by (intro exI [of _ ?x']) simp
next
  fix node r
  assume h: "map_of (def_nodes (workflow_def x)) nid = Some node \<and> node_type node = END
        \<and> fst (execute_node py x node) = Inr r \<and> res_status r = ''failed''"
  obtain x1 where e: "execute_node py x node = (Inr r, x1)"
    using h by (cases "execute_node py x node") auto
  from h e have c: "continue_execution py (Suc depth) x nid
      = Some (Inr (x1\<lparr>status := COMPLETED, completed_at := True\<rparr>))"
    by simp
  have r: "map_option ne_status (map_of (node_executions x1) (node_id node)) = Some FAILED"
    using e h
    by (auto simp: execute_node_def set_record_def Let_def update_conv' result_of_def
          split: prod.splits outcome.splits option.splits if_splits)
  show "\<exists>x'. continue_execution py (Suc depth) x nid = Some (Inr x') \<and> status x' = COMPLETED
          \<and> map_option ne_status (map_of (node_executions x') (node_id node)) = Some FAILED"
    using c r by (intro exI [of _ "x1\<lparr>status := COMPLETED, completed_at := True\<rparr>"]) simp
next
  fix node err
  assume h: "map_of (def_nodes (workflow_def x)) nid = Some node
        \<and> fst (execute_node py x node) = Inl err"
  obtain x1 where e: "execute_node py x node = (Inl err, x1)"
    using h by (cases "execute_node py x node") auto
  from h e have c: "continue_execution py (Suc depth) x nid = Some (Inl (err, x1))"
    by simp
  have s: "status x1 = status x" using execute_node_status [of py x node] e by simp
  have l: "exec_log x1 = exec_log x @ [(node_name node, node_type node)]"
    using execute_node_log [of py x node] e by simp
  have r: "map_option ne_status (map_of (node_executions x1) (node_id node)) = Some RUNNING"
    using e
    by (auto simp: execute_node_def set_record_def Let_def update_conv' result_of_def
          split: prod.splits outcome.splits option.splits if_splits)
  have f: "for_each (continue_execution py (Suc depth)) (nid # rest) x = Some (Inl (err, x1))"
    using c by (simp del: continue_execution.simps)
  show "\<exists>x1. continue_execution py (Suc depth) x nid = Some (Inl (err, x1)) \<and> status x1 = status x
          \<and> exec_log x1 = exec_log x @ [(node_name node, node_type node)]
          \<and> map_option ne_status (map_of (node_executions x1) (node_id node)) = Some RUNNING
          \<and> for_each (continue_execution py (Suc depth)) (nid # rest) x = Some (Inl (err, x1))"
    using c s l r f by (intro exI [of _ x1]) simp
next
  fix start_node others e
  assume h: "filter (\<lambda>n. node_type n = START) (map snd (def_nodes (workflow_def x)))
               = start_node # others
        \<and> fst (execute py start_node (exec_context x)) = Raises e"
  then obtain c where ex: "execute py start_node (exec_context x) = (Raises e, c)"
    by (cases "execute py start_node (exec_context x)") auto
  show "\<exists>x'. start py depth x = Some (Inr x') \<and> status x' = RUNNING
          \<and> map_option ne_status (map_of (node_executions x') (node_id start_node)) = Some FAILED
          \<and> map_option ne_error_message (map_of (node_executions x') (node_id start_node))
              = Some (Some e)"
    using h ex
    by (simp add: start_def execute_node_def set_record_def Let_def update_conv' result_of_def)
qed

text \<open>
  On a new run of \<open>failures\<close>: the node that raises, alone and followed by the end
  node as its sibling; the node of type END that raises; the node that is cancelled,
  followed by the end node; and \<^verbatim>\<open>start\<close>, whose start node raises.
\<close>

theorem failure_stops_one_branch_witness:
  "(\<exists>x'. continue_execution python (Suc 0) (new_execution failures (context_of [])) ''boom''
            = Some (Inr x')
       \<and> status x' = FAILED \<and> exec_log x' = [(''Boom'', SCRIPT_TASK)]
       \<and> map_option ne_error_message (map_of (node_executions x') ''boom'') = Some (Some ''boom''))
   \<and> (\<exists>x'. for_each (continue_execution python (Suc 0)) [''boom'', ''end'']
              (new_execution failures (context_of [])) = Some (Inr x')
       \<and> status x' = COMPLETED)
   \<and> (\<exists>x'. continue_execution python (Suc 0) (new_execution failures (context_of [])) ''bad_end''
            = Some (Inr x')
       \<and> status x' = COMPLETED
       \<and> map_option ne_status (map_of (node_executions x') ''bad_end'') = Some FAILED)
   \<and> (\<exists>x1. continue_execution python (Suc 0) (new_execution failures (context_of [])) ''cancel''
            = Some (Inl (BaseException ''cancelled'', x1))
       \<and> status x1 = PENDING
       \<and> map_option ne_status (map_of (node_executions x1) ''cancel'') = Some RUNNING
       \<and> for_each (continue_execution python (Suc 0)) [''cancel'', ''end'']
              (new_execution failures (context_of []))
            = Some (Inl (BaseException ''cancelled'', x1)))
   \<and> (\<exists>x'. start python 10 (new_execution failures (context_of [])) = Some (Inr x')
       \<and> status x' = RUNNING
       \<and> map_option ne_error_message (map_of (node_executions x') ''start'') = Some (Some ''boom''))"
proof -
  let ?x = "new_execution failures (context_of [])"
  note fs = failure_stops_one_branch [where x = ?x and py = python and depth = 0]
  have p: "status ?x = PENDING" "exec_log ?x = []" by (simp_all add: new_execution_def)
  have "case map_of (def_nodes (workflow_def ?x)) ''boom'' of
          Some n \<Rightarrow> node_type n = SCRIPT_TASK \<and> node_name n = ''Boom'' \<and> node_id n = ''boom''
             \<and> (case fst (execute_node python ?x n) of
                   Inr r \<Rightarrow> res_status r = ''failed'' \<and> res_error r = Some ''boom''
                 | Inl err \<Rightarrow> False)
        | None \<Rightarrow> False"
    by code_simp
  then obtain bn br where bn: "map_of (def_nodes (workflow_def ?x)) ''boom'' = Some bn"
    and bc: "node_type bn = SCRIPT_TASK" "node_name bn = ''Boom''" "node_id bn = ''boom''"
    and br: "fst (execute_node python ?x bn) = Inr br" "res_status br = ''failed''"
      "res_error br = Some ''boom''"
    by (auto split: option.splits sum.splits)
  have "case map_of (def_nodes (workflow_def ?x)) ''end'' of
          Some n \<Rightarrow> (case node_class n of EndNode \<Rightarrow> True | _ \<Rightarrow> False) | None \<Rightarrow> False"
    by code_simp
  then obtain en where en: "map_of (def_nodes (workflow_def ?x)) ''end'' = Some en"
    and ec: "node_class en = EndNode"
    by (auto split: option.splits node_class.splits)
  from bc have bt: "node_type bn \<noteq> END" by simp
  from fs [of "''boom''" "[''end'']"] bn bt br
  obtain x' where 1: "continue_execution python (Suc 0) ?x ''boom'' = Some (Inr x')"
      "status x' = FAILED" "exec_log x' = exec_log ?x @ [(node_name bn, node_type bn)]"
      "map_option ne_error_message (map_of (node_executions x') (node_id bn)) = Some (res_error br)"
    and sib: "\<forall>eid enode. map_of (def_nodes (workflow_def ?x)) eid = Some enode
                \<and> node_class enode = EndNode \<longrightarrow>
               (\<exists>x''. for_each (continue_execution python (Suc 0)) [''boom'', eid] ?x = Some (Inr x'')
                    \<and> status x'' = COMPLETED)"
    by blast
  from 1 bc br p
  have A: "\<exists>x'. continue_execution python (Suc 0) ?x ''boom'' = Some (Inr x')
       \<and> status x' = FAILED \<and> exec_log x' = [(''Boom'', SCRIPT_TASK)]
       \<and> map_option ne_error_message (map_of (node_executions x') ''boom'') = Some (Some ''boom'')"
    by (intro exI [of _ x']) simp
  from sib en ec
  have B: "\<exists>x'. for_each (continue_execution python (Suc 0)) [''boom'', ''end''] ?x = Some (Inr x')
       \<and> status x' = COMPLETED"
    by blast
  have "case map_of (def_nodes (workflow_def ?x)) ''bad_end'' of
          Some n \<Rightarrow> node_type n = END \<and> node_id n = ''bad_end''
             \<and> (case fst (execute_node python ?x n) of
                   Inr r \<Rightarrow> res_status r = ''failed'' | Inl err \<Rightarrow> False)
        | None \<Rightarrow> False"
    by code_simp
  then obtain dn dr where dn: "map_of (def_nodes (workflow_def ?x)) ''bad_end'' = Some dn"
    and dc: "node_type dn = END" "node_id dn = ''bad_end''"
    and dr: "fst (execute_node python ?x dn) = Inr dr" "res_status dr = ''failed''"
    by (auto split: option.splits sum.splits)
  from fs [of "''bad_end''" "[]"] dn dc dr
  have C: "\<exists>x'. continue_execution python (Suc 0) ?x ''bad_end'' = Some (Inr x')
       \<and> status x' = COMPLETED
       \<and> map_option ne_status (map_of (node_executions x') ''bad_end'') = Some FAILED"
    by (metis (no_types, lifting))
  have "case map_of (def_nodes (workflow_def ?x)) ''cancel'' of
          Some n \<Rightarrow> node_id n = ''cancel''
             \<and> (case fst (execute_node python ?x n) of
                   Inl err \<Rightarrow> err = BaseException ''cancelled'' | Inr r \<Rightarrow> False)
        | None \<Rightarrow> False"
    by code_simp
  then obtain cn where cn: "map_of (def_nodes (workflow_def ?x)) ''cancel'' = Some cn"
    and cc: "node_id cn = ''cancel''"
    and cr: "fst (execute_node python ?x cn) = Inl (BaseException ''cancelled'')"
    by (auto split: option.splits sum.splits)
  from fs [of "''cancel''" "[''end'']"] cn cr
  obtain x1 where 4: "continue_execution python (Suc 0) ?x ''cancel''
        = Some (Inl (BaseException ''cancelled'', x1))"
      "status x1 = status ?x"
      "map_option ne_status (map_of (node_executions x1) (node_id cn)) = Some RUNNING"
      "for_each (continue_execution python (Suc 0)) [''cancel'', ''end''] ?x
        = Some (Inl (BaseException ''cancelled'', x1))"
    by (metis (no_types, lifting))
  from 4 cc p
  have D: "\<exists>x1. continue_execution python (Suc 0) ?x ''cancel''
            = Some (Inl (BaseException ''cancelled'', x1))
       \<and> status x1 = PENDING
       \<and> map_option ne_status (map_of (node_executions x1) ''cancel'') = Some RUNNING
       \<and> for_each (continue_execution python (Suc 0)) [''cancel'', ''end''] ?x
            = Some (Inl (BaseException ''cancelled'', x1))"
    by (intro exI [of _ x1]) simp
  have "case filter (\<lambda>n. node_type n = START) (map snd (def_nodes (workflow_def ?x))) of
          s # others \<Rightarrow> node_id s = ''start''
             \<and> (case fst (execute python s (exec_context ?x)) of
                   Raises e \<Rightarrow> e = ''boom'' | _ \<Rightarrow> False)
        | [] \<Rightarrow> False"
    by code_simp
  then obtain sn others where
    sn: "filter (\<lambda>n. node_type n = START) (map snd (def_nodes (workflow_def ?x))) = sn # others"
    and sc: "node_id sn = ''start''"
    and sr: "fst (execute python sn (exec_context ?x)) = Raises ''boom''"
    by (auto split: list.splits outcome.splits)
  from failure_stops_one_branch [where x = ?x and py = python and depth = 10] sn sr
  have "\<exists>x'. start python 10 ?x = Some (Inr x') \<and> status x' = RUNNING
          \<and> map_option ne_status (map_of (node_executions x') (node_id sn)) = Some FAILED
          \<and> map_option ne_error_message (map_of (node_executions x') (node_id sn))
              = Some (Some ''boom'')"
    by blast
  with sc have E: "\<exists>x'. start python 10 ?x = Some (Inr x') \<and> status x' = RUNNING
       \<and> map_option ne_error_message (map_of (node_executions x') ''start'') = Some (Some ''boom'')"
    by auto
  from A B C D E show ?thesis by (intro conjI)
qed

text \<open>
  \<open>fork_boom_end\<close> run: the first branch of the fork fails (its record is FAILED with
  the message). The sibling B is executed after the failure and goes on to the end
  node, and the run returns COMPLETED: the FAILED status was overwritten.
\<close>

theorem fork_boom_end_counterexample:
  "observe (start python 10 (new_execution fork_boom_end (context_of [])))
     = Some (COMPLETED,
             [(''Start'', START), (''Fork'', PARALLEL_GATEWAY), (''Boom'', SCRIPT_TASK),
              (''B'', SERVICE_TASK), (''End'', END)],
             [])
   \<and> observe_record (start python 10 (new_execution fork_boom_end (context_of []))) ''boom''
       = Some (FAILED, Some ''boom'', None, None)"
  by code_simp

subsection \<open>Completing a human task\<close>




text \<open>
  Scenario B to its end: after the task is completed with \<^verbatim>\<open>approved = True\<close>, run
  \<^verbatim>\<open>e1\<close> is COMPLETED, the variable \<^verbatim>\<open>approved\<close> is \<^verbatim>\<open>True\<close> and no task waits.
\<close>

lemma scenario_b_resumed:
  "(case complete_task python 10 engine_b ''e1'' ''manual_review'' [(''approved'', PBool True)] of
      Some (Inr e') \<Rightarrow>
        (case map_of (executions e') ''e1'' of
           Some x \<Rightarrow>
             Some (status x, map_option var_value (map_of (variables (exec_context x)) ''approved''),
                   map fst (waiting_tasks x))
         | None \<Rightarrow> None)
    | _ \<Rightarrow> None) = Some (COMPLETED, Some (PBool True), [])"
  by code_simp

end
